theory Spec2Isabelle
  imports Main "HOL-Library.Char_ord" "HOL-Library.List_Lexorder" "HOL-Library.Sublist"
begin

section \<open>Errors\<close>

text \<open>
  Every exception the installer (\<^verbatim>\<open>ayon_server/installer/addons.py\<close>) can raise is a value.
  \<open>UnsupportedAddonException\<close> is the repository's own exception and carries its message;
  the others are the exceptions of the Python runtime and of the libraries the module calls.
\<close>

datatype error =
    UnsupportedAddonException string
  | ValueError
  | ValidationError
  | AttributeError
  | JSONDecodeError
  | YAMLError
  | UnicodeDecodeError
  | BadZipFile
  | KeyError
  | FileNotFoundError
  | FileExistsError
  | NotADirectoryError
  | IsADirectoryError
  | OSError
  | ShutilError
  | TransportError

section \<open>The semver library\<close>

text \<open>
  \<^verbatim>\<open>semver.compare(ver1, ver2)\<close> belongs to the third-party package \<^verbatim>\<open>semver\<close>. It parses both
  strings with the grammar of semver.org (\<^verbatim>\<open>MAJOR.MINOR.PATCH[-prerelease][+build]\<close>), raises
  \<^verbatim>\<open>ValueError\<close> on a string outside the grammar, and returns -1, 0 or 1. The functions below
  follow the library: \<open>VersionInfo_parse\<close> its regular expression, \<open>nat_cmp\<close> its helper
  \<^verbatim>\<open>_nat_cmp\<close>, \<open>VersionInfo_compare\<close> its method \<^verbatim>\<open>VersionInfo.compare\<close>.
\<close>

record VersionInfo =
  major :: nat
  minor :: nat
  patch :: nat
  prerelease :: "string option"
  build :: "string option"

fun split_on :: "char \<Rightarrow> string \<Rightarrow> string list" where
  "split_on c [] = [[]]"
| "split_on c (x # xs) =
     (if x = c then [] # split_on c xs
      else (case split_on c xs of [] \<Rightarrow> [[x]] | w # ws \<Rightarrow> (x # w) # ws))"

definition is_digit :: "char \<Rightarrow> bool" where
  "is_digit c = (CHR ''0'' \<le> c \<and> c \<le> CHR ''9'')"

definition is_alpha :: "char \<Rightarrow> bool" where
  "is_alpha c = ((CHR ''a'' \<le> c \<and> c \<le> CHR ''z'') \<or> (CHR ''A'' \<le> c \<and> c \<le> CHR ''Z''))"

definition is_ident_char :: "char \<Rightarrow> bool" where
  "is_ident_char c = (is_digit c \<or> is_alpha c \<or> c = CHR ''-'')"

definition all_digits :: "string \<Rightarrow> bool" where
  "all_digits s = (s \<noteq> [] \<and> list_all is_digit s)"

text \<open>\<^verbatim>\<open>0|[1-9]\d*\<close>: a decimal numeral without a leading zero.\<close>

definition is_numeric_ident :: "string \<Rightarrow> bool" where
  "is_numeric_ident s = (all_digits s \<and> (s = ''0'' \<or> hd s \<noteq> CHR ''0''))"

text \<open>\<^verbatim>\<open>0|[1-9]\d*|\d*[a-zA-Z-][0-9a-zA-Z-]*\<close>: one identifier of a prerelease.\<close>

definition is_prerelease_ident :: "string \<Rightarrow> bool" where
  "is_prerelease_ident s =
     (s \<noteq> [] \<and> list_all is_ident_char s \<and> (all_digits s \<longrightarrow> is_numeric_ident s))"

text \<open>\<^verbatim>\<open>[0-9a-zA-Z-]+\<close>: one identifier of the build metadata.\<close>

definition is_build_ident :: "string \<Rightarrow> bool" where
  "is_build_ident s = (s \<noteq> [] \<and> list_all is_ident_char s)"

definition digit_val :: "char \<Rightarrow> nat" where
  "digit_val c = of_char c - 48"

definition int_of_digits :: "string \<Rightarrow> nat" where
  "int_of_digits s = foldl (\<lambda>n c. 10 * n + digit_val c) 0 s"

text \<open>The text before the first occurrence of a separator, and the text after it (if any).\<close>

definition cut_at :: "char \<Rightarrow> string \<Rightarrow> string \<times> string option" where
  "cut_at c s =
     (takeWhile (\<lambda>x. x \<noteq> c) s,
      case dropWhile (\<lambda>x. x \<noteq> c) s of [] \<Rightarrow> None | _ # r \<Rightarrow> Some r)"

definition VersionInfo_parse :: "string \<Rightarrow> error + VersionInfo" where
  "VersionInfo_parse s =
     (let (front, bld) = cut_at CHR ''+'' s;
          (core, pre) = cut_at CHR ''-'' front
      in case split_on CHR ''.'' core of
           [a, b, c] \<Rightarrow>
             if is_numeric_ident a \<and> is_numeric_ident b \<and> is_numeric_ident c
                \<and> (case pre of None \<Rightarrow> True
                    | Some p \<Rightarrow> list_all is_prerelease_ident (split_on CHR ''.'' p))
                \<and> (case bld of None \<Rightarrow> True
                    | Some p \<Rightarrow> list_all is_build_ident (split_on CHR ''.'' p))
             then Inr \<lparr>major = int_of_digits a, minor = int_of_digits b,
                       patch = int_of_digits c, prerelease = pre, build = bld\<rparr>
             else Inl ValueError
         | _ \<Rightarrow> Inl ValueError)"

text \<open>Python 2's \<^verbatim>\<open>cmp\<close>, which the library defines for itself.\<close>

definition cmp :: "'a::linorder \<Rightarrow> 'a \<Rightarrow> int" where
  "cmp x y = (if x < y then - 1 else if x = y then 0 else 1)"

text \<open>
  \<^verbatim>\<open>convert\<close> in \<^verbatim>\<open>_nat_cmp\<close>: a part made of digits only becomes an integer, any other part
  stays a string.
\<close>

datatype tag = TInt nat | TStr string

definition convert :: "string \<Rightarrow> tag" where
  "convert text = (if all_digits text then TInt (int_of_digits text) else TStr text)"

definition split_key :: "string \<Rightarrow> tag list" where
  "split_key key = map convert (split_on CHR ''.'' key)"

fun cmp_prerelease_tag :: "tag \<Rightarrow> tag \<Rightarrow> int" where
  "cmp_prerelease_tag (TInt a) (TInt b) = cmp a b"
| "cmp_prerelease_tag (TInt a) (TStr b) = - 1"
| "cmp_prerelease_tag (TStr a) (TInt b) = 1"
| "cmp_prerelease_tag (TStr a) (TStr b) = cmp a b"

text \<open>
  The loop of \<^verbatim>\<open>_nat_cmp\<close> over \<^verbatim>\<open>zip(a_parts, b_parts)\<close>: the first comparison that is not 0
  is returned; the \<^verbatim>\<open>else\<close> of the loop is reached when the shorter list is used up, and its
  value is the last argument.
\<close>

fun first_nonzero :: "tag list \<Rightarrow> tag list \<Rightarrow> int \<Rightarrow> int" where
  "first_nonzero (x # xs) (y # ys) d =
     (if cmp_prerelease_tag x y \<noteq> 0 then cmp_prerelease_tag x y else first_nonzero xs ys d)"
| "first_nonzero _ _ d = d"

definition nat_cmp :: "string option \<Rightarrow> string option \<Rightarrow> int" where
  "nat_cmp a b =
     (let a' = (case a of None \<Rightarrow> [] | Some s \<Rightarrow> s);
          b' = (case b of None \<Rightarrow> [] | Some s \<Rightarrow> s)
      in first_nonzero (split_key a') (split_key b') (cmp (length a') (length b')))"

text \<open>Python's truth value of an optional string: \<^verbatim>\<open>None\<close> and \<^verbatim>\<open>""\<close> are false.\<close>

fun truthy_opt :: "string option \<Rightarrow> bool" where
  "truthy_opt None = False"
| "truthy_opt (Some s) = (s \<noteq> [])"

definition cmp_triple :: "nat \<times> nat \<times> nat \<Rightarrow> nat \<times> nat \<times> nat \<Rightarrow> int" where
  "cmp_triple v w =
     (case (v, w) of ((a, b, c), (a', b', c')) \<Rightarrow>
        if a \<noteq> a' then cmp a a' else if b \<noteq> b' then cmp b b' else cmp c c')"

definition VersionInfo_compare :: "VersionInfo \<Rightarrow> VersionInfo \<Rightarrow> int" where
  "VersionInfo_compare v w =
     (let x = cmp_triple (major v, minor v, patch v) (major w, minor w, patch w) in
      if x \<noteq> 0 then x
      else let rccmp = nat_cmp (prerelease v) (prerelease w) in
        if rccmp = 0 then 0
        else if \<not> truthy_opt (prerelease v) then 1
        else if \<not> truthy_opt (prerelease w) then - 1
        else rccmp)"

definition semver_compare :: "string \<Rightarrow> string \<Rightarrow> error + int" where
  "semver_compare ver1 ver2 =
     (case VersionInfo_parse ver1 of
        Inl e \<Rightarrow> Inl e
      | Inr v1 \<Rightarrow>
          (case VersionInfo_parse ver2 of
             Inl e \<Rightarrow> Inl e
           | Inr v2 \<Rightarrow> Inr (VersionInfo_compare v1 v2)))"


section \<open>The semantic-version ordering\<close>

text \<open>
  The precedence of semver.org, written from its rules and not from the library: versions
  are compared by major, minor and patch numerically; with the three equal, a version with a
  prerelease precedes the one without; two prereleases are compared identifier by identifier,
  a numeric identifier by its value, any other by ASCII order, a numeric one before any other,
  and a prerelease precedes every longer one that it starts. Build metadata is ignored.
\<close>

fun ident_less :: "tag \<Rightarrow> tag \<Rightarrow> bool" where
  "ident_less (TInt a) (TInt b) = (a < b)"
| "ident_less (TInt a) (TStr b) = True"
| "ident_less (TStr a) (TInt b) = False"
| "ident_less (TStr a) (TStr b) = (a < b)"

fun idents_less :: "tag list \<Rightarrow> tag list \<Rightarrow> bool" where
  "idents_less [] [] = False"
| "idents_less [] (y # ys) = True"
| "idents_less (x # xs) [] = False"
| "idents_less (x # xs) (y # ys) = (ident_less x y \<or> (x = y \<and> idents_less xs ys))"

fun prerelease_less :: "string option \<Rightarrow> string option \<Rightarrow> bool" where
  "prerelease_less (Some p) None = True"
| "prerelease_less (Some p) (Some q) = idents_less (split_key p) (split_key q)"
| "prerelease_less None _ = False"

definition core_less :: "VersionInfo \<Rightarrow> VersionInfo \<Rightarrow> bool" where
  "core_less v w =
     (major v < major w
      \<or> (major v = major w \<and> (minor v < minor w \<or> (minor v = minor w \<and> patch v < patch w))))"

definition core_eq :: "VersionInfo \<Rightarrow> VersionInfo \<Rightarrow> bool" where
  "core_eq v w = (major v = major w \<and> minor v = minor w \<and> patch v = patch w)"

definition precedes :: "VersionInfo \<Rightarrow> VersionInfo \<Rightarrow> bool" where
  "precedes v w = (core_less v w \<or> (core_eq v w \<and> prerelease_less (prerelease v) (prerelease w)))"

text \<open>The ordering on version strings; a string that is no version is related to nothing.\<close>

definition version_less :: "string \<Rightarrow> string \<Rightarrow> bool" where
  "version_less a b =
     (case (VersionInfo_parse a, VersionInfo_parse b) of
        (Inr v, Inr w) \<Rightarrow> precedes v w
      | _ \<Rightarrow> False)"

definition same_precedence :: "VersionInfo \<Rightarrow> VersionInfo \<Rightarrow> bool" where
  "same_precedence v w =
     (core_eq v w \<and> map_option split_key (prerelease v) = map_option split_key (prerelease w))"

definition version_le :: "string \<Rightarrow> string \<Rightarrow> bool" where
  "version_le a b =
     (case (VersionInfo_parse a, VersionInfo_parse b) of
        (Inr v, Inr w) \<Rightarrow> precedes v w \<or> same_precedence v w
      | _ \<Rightarrow> False)"

text \<open>What the grammar guarantees of a parsed prerelease.\<close>

definition wf_prerelease :: "string option \<Rightarrow> bool" where
  "wf_prerelease pre =
     (case pre of None \<Rightarrow> True
      | Some p \<Rightarrow> list_all is_prerelease_ident (split_on CHR ''.'' p))"

definition valid_version :: "string \<Rightarrow> bool" where
  "valid_version s = (case VersionInfo_parse s of Inr v \<Rightarrow> True | Inl e \<Rightarrow> False)"

section \<open>The descriptor and the compatibility check\<close>

record AddonZipInfo =
  name :: string
  version :: string
  min_ayon_version :: string
  max_ayon_version :: "string option"
  is_rez :: bool

definition unsupported_version :: "string \<Rightarrow> error" where
  "unsupported_version ayon_version =
     UnsupportedAddonException (''Ayon version '' @ ayon_version @ '' is not supported by this addon'')"

text \<open>
  The two version checks that end \<^verbatim>\<open>get_addon_zip_info\<close> (lines 112 to 125): the running
  version against the inclusive lower bound, then, when an upper bound is set (a non-empty
  string), against the exclusive upper bound.
\<close>

definition compatibility_gate :: "string \<Rightarrow> AddonZipInfo \<Rightarrow> error + AddonZipInfo" where
  "compatibility_gate ayon_version zip_info =
     (case semver_compare ayon_version (min_ayon_version zip_info) of
        Inl e \<Rightarrow> Inl e
      | Inr c \<Rightarrow>
          if c < 0 then Inl (unsupported_version ayon_version)
          else if truthy_opt (max_ayon_version zip_info) then
            (case semver_compare ayon_version (the (max_ayon_version zip_info)) of
               Inl e \<Rightarrow> Inl e
             | Inr c' \<Rightarrow>
                 if c' \<ge> 0 then Inl (unsupported_version ayon_version) else Inr zip_info)
          else Inr zip_info)"

section \<open>Python values and the parsing libraries\<close>

text \<open>
  The values \<^verbatim>\<open>json.loads\<close> and \<^verbatim>\<open>yaml.safe_load\<close> return. A dictionary is its list of
  items. Floating-point scalars are left out of the model.
\<close>

datatype pyval =
    PNone
  | PBool bool
  | PInt int
  | PStr string
  | PList "pyval list"
  | PDict "(pyval \<times> pyval) list"

text \<open>Python's truth value.\<close>

fun truthy :: "pyval \<Rightarrow> bool" where
  "truthy PNone = False"
| "truthy (PBool b) = b"
| "truthy (PInt i) = (i \<noteq> 0)"
| "truthy (PStr s) = (s \<noteq> [])"
| "truthy (PList xs) = (xs \<noteq> [])"
| "truthy (PDict kv) = (kv \<noteq> [])"

text \<open>
  \<^verbatim>\<open>manifest.get(key)\<close>: the value of the key, \<^verbatim>\<open>None\<close> when the key is missing, and an
  \<^verbatim>\<open>AttributeError\<close> when the document is no dictionary (lists, strings, numbers and \<^verbatim>\<open>None\<close>
  have no \<^verbatim>\<open>get\<close>).
\<close>

definition dict_get :: "pyval \<Rightarrow> string \<Rightarrow> error + pyval" where
  "dict_get manifest key =
     (case manifest of
        PDict kv \<Rightarrow> Inr (case map_of kv (PStr key) of None \<Rightarrow> PNone | Some v \<Rightarrow> v)
      | _ \<Rightarrow> Inl AttributeError)"

text \<open>Sequencing of two computations that may raise.\<close>

definition bind_err :: "error + 'a \<Rightarrow> ('a \<Rightarrow> error + 'b) \<Rightarrow> error + 'b" where
  "bind_err m f = (case m of Inl e \<Rightarrow> Inl e | Inr x \<Rightarrow> f x)"

text \<open>\<^verbatim>\<open>str(n)\<close> for an integer.\<close>

fun str_nat :: "nat \<Rightarrow> string" where
  "str_nat n =
     (if n < 10 then [char_of (48 + n)]
      else str_nat (n div 10) @ [char_of (48 + n mod 10)])"

definition str_int :: "int \<Rightarrow> string" where
  "str_int i = (if i < 0 then CHR ''-'' # str_nat (nat (- i)) else str_nat (nat i))"

text \<open>
  The validation pydantic (version 1, whose \<^verbatim>\<open>.dict()\<close> the module calls) applies to a field
  declared \<^verbatim>\<open>str\<close>: a string is kept, a number is replaced by its \<^verbatim>\<open>str\<close>, anything else
  (\<^verbatim>\<open>None\<close> included, for a required field) is a \<^verbatim>\<open>ValidationError\<close>.
\<close>

fun str_validator :: "pyval \<Rightarrow> error + string" where
  "str_validator (PStr s) = Inr s"
| "str_validator (PInt i) = Inr (str_int i)"
| "str_validator (PBool b) = Inr (if b then ''True'' else ''False'')"
| "str_validator _ = Inl ValidationError"

text \<open>
  \<^verbatim>\<open>AddonZipInfo(name=..., version=..., min_ayon_version=..., max_ayon_version=..., is_rez=...)\<close>
  with the two fields that come from a document.
\<close>

definition make_AddonZipInfo ::
  "pyval \<Rightarrow> pyval \<Rightarrow> string \<Rightarrow> string option \<Rightarrow> bool \<Rightarrow> error + AddonZipInfo" where
  "make_AddonZipInfo n v mn mx rez =
     (case (str_validator n, str_validator v) of
        (Inr n', Inr v') \<Rightarrow>
          Inr \<lparr>name = n', version = v', min_ayon_version = mn, max_ayon_version = mx, is_rez = rez\<rparr>
      | _ \<Rightarrow> Inl ValidationError)"

section \<open>The file system\<close>

text \<open>
  A path is the list of its components from the root; a file system is a list of entries, read
  with \<open>map_of\<close>. A directory carries its mode, a file its bytes and its mode. The root is
  always a directory. Symbolic links, ownership and permission failures are not modelled.
\<close>

type_synonym path = "string list"

datatype node = Dir nat | File string nat

type_synonym filesys = "(path \<times> node) list"

definition lookup :: "filesys \<Rightarrow> path \<Rightarrow> node option" where
  "lookup fs p = map_of fs p"

definition exists_path :: "filesys \<Rightarrow> path \<Rightarrow> bool" where
  "exists_path fs p = (p = [] \<or> lookup fs p \<noteq> None)"

definition isdir :: "filesys \<Rightarrow> path \<Rightarrow> bool" where
  "isdir fs p = (p = [] \<or> (case lookup fs p of Some (Dir m) \<Rightarrow> True | _ \<Rightarrow> False))"

definition isfile :: "filesys \<Rightarrow> path \<Rightarrow> bool" where
  "isfile fs p = (p \<noteq> [] \<and> (case lookup fs p of Some (File c m) \<Rightarrow> True | _ \<Rightarrow> False))"

definition fs_del :: "filesys \<Rightarrow> path \<Rightarrow> filesys" where
  "fs_del fs p = filter (\<lambda>e. fst e \<noteq> p) fs"

definition fs_put :: "filesys \<Rightarrow> path \<Rightarrow> node \<Rightarrow> filesys" where
  "fs_put fs p n = fs_del fs p @ [(p, n)]"

text \<open>Everything at or below a path is removed.\<close>

definition fs_del_tree :: "filesys \<Rightarrow> path \<Rightarrow> filesys" where
  "fs_del_tree fs p = filter (\<lambda>e. \<not> prefix p (fst e)) fs"

text \<open>The paths that have an entry, each once.\<close>

definition paths :: "filesys \<Rightarrow> path list" where
  "paths fs = remdups (map fst fs)"

text \<open>
  The error of a system call that has to create or replace the entry \<open>p\<close>: the parent
  directory must exist and be a directory.
\<close>

definition parent_error :: "filesys \<Rightarrow> path \<Rightarrow> error option" where
  "parent_error fs p =
     (if \<not> exists_path fs (butlast p) then Some FileNotFoundError
      else if \<not> isdir fs (butlast p) then Some NotADirectoryError
      else None)"

text \<open>\<^verbatim>\<open>os.mkdir(p, mode)\<close>.\<close>

definition os_mkdir :: "filesys \<Rightarrow> path \<Rightarrow> nat \<Rightarrow> error + filesys" where
  "os_mkdir fs p mode =
     (if exists_path fs p then Inl FileExistsError
      else case parent_error fs p of
             Some e \<Rightarrow> Inl e
           | None \<Rightarrow> Inr (fs_put fs p (Dir mode)))"

text \<open>
  \<^verbatim>\<open>os.makedirs(name, exist_ok=...)\<close>, on the reversed path: the missing parents are made
  first, then the directory itself; when the directory is there already the error of
  \<^verbatim>\<open>mkdir\<close> is swallowed only with \<^verbatim>\<open>exist_ok\<close>.
\<close>

fun makedirs_rev :: "bool \<Rightarrow> nat \<Rightarrow> filesys \<Rightarrow> path \<Rightarrow> error + filesys" where
  "makedirs_rev exist_ok mode fs [] = (if exist_ok then Inr fs else Inl FileExistsError)"
| "makedirs_rev exist_ok mode fs (t # rhead) =
     (case (if rhead \<noteq> [] \<and> \<not> exists_path fs (rev rhead)
            then makedirs_rev True mode fs rhead else Inr fs) of
        Inl e \<Rightarrow> Inl e
      | Inr fs1 \<Rightarrow>
          (case os_mkdir fs1 (rev (t # rhead)) mode of
             Inl e \<Rightarrow> if exist_ok \<and> isdir fs1 (rev (t # rhead)) then Inr fs1 else Inl e
           | Inr fs2 \<Rightarrow> Inr fs2))"

definition os_makedirs :: "bool \<Rightarrow> nat \<Rightarrow> filesys \<Rightarrow> path \<Rightarrow> error + filesys" where
  "os_makedirs exist_ok mode fs p = makedirs_rev exist_ok mode fs (rev p)"

text \<open>
  \<^verbatim>\<open>open(p, "wb")\<close> followed by writing the bytes: a new file gets the default mode, an
  existing file keeps its mode and loses its content.
\<close>

definition write_file :: "nat \<Rightarrow> filesys \<Rightarrow> path \<Rightarrow> string \<Rightarrow> error + filesys" where
  "write_file mode fs p bytes =
     (if isdir fs p then Inl IsADirectoryError
      else case parent_error fs p of
             Some e \<Rightarrow> Inl e
           | None \<Rightarrow>
               (case lookup fs p of
                  Some (File c m) \<Rightarrow> Inr (fs_put fs p (File bytes m))
                | _ \<Rightarrow> Inr (fs_put fs p (File bytes mode))))"

text \<open>
  \<^verbatim>\<open>os.chmod(p, mode)\<close>: the system keeps the twelve permission bits of the mode and drops
  the bits above them (the file type that a zip archive records with the mode).
\<close>

definition os_chmod :: "filesys \<Rightarrow> path \<Rightarrow> nat \<Rightarrow> error + filesys" where
  "os_chmod fs p mode =
     (case lookup fs p of
        None \<Rightarrow> if p = [] then Inr fs else Inl FileNotFoundError
      | Some (Dir m) \<Rightarrow> Inr (fs_put fs p (Dir (mode mod 4096)))
      | Some (File c m) \<Rightarrow> Inr (fs_put fs p (File c (mode mod 4096))))"

text \<open>\<^verbatim>\<open>os.remove(p)\<close>.\<close>

definition os_remove :: "filesys \<Rightarrow> path \<Rightarrow> error + filesys" where
  "os_remove fs p =
     (if isdir fs p then Inl IsADirectoryError
      else if \<not> exists_path fs p then Inl FileNotFoundError
      else Inr (fs_del fs p))"

text \<open>\<^verbatim>\<open>shutil.rmtree(p)\<close>.\<close>

definition shutil_rmtree :: "filesys \<Rightarrow> path \<Rightarrow> error + filesys" where
  "shutil_rmtree fs p =
     (if \<not> exists_path fs p then Inl FileNotFoundError
      else if \<not> isdir fs p then Inl NotADirectoryError
      else Inr (fs_del_tree fs p))"

definition has_children :: "filesys \<Rightarrow> path \<Rightarrow> bool" where
  "has_children fs d = list_ex (\<lambda>e. prefix d (fst e) \<and> fst e \<noteq> d) fs"

text \<open>The entries at or below \<open>src\<close> are re-rooted at \<open>dst\<close>.\<close>

definition move_tree :: "filesys \<Rightarrow> path \<Rightarrow> path \<Rightarrow> filesys" where
  "move_tree fs src dst =
     map (\<lambda>e. if prefix src (fst e) then (dst @ drop (length src) (fst e), snd e) else e) fs"

text \<open>
  \<^verbatim>\<open>os.rename(src, dst)\<close>: a directory replaces only an empty directory and cannot be moved
  below itself; a file replaces a file.
\<close>

definition os_rename :: "filesys \<Rightarrow> path \<Rightarrow> path \<Rightarrow> error + filesys" where
  "os_rename fs src dst =
     (if \<not> exists_path fs src then Inl FileNotFoundError
      else if src = dst then Inr fs
      else if isdir fs src then
        (if prefix src dst then Inl OSError
         else case parent_error fs dst of
                Some e \<Rightarrow> Inl e
              | None \<Rightarrow>
                  if isfile fs dst then Inl NotADirectoryError
                  else if has_children fs dst \<or> dst = [] then Inl OSError
                  else Inr (move_tree (fs_del fs dst) src dst))
      else
        (if isdir fs dst then Inl IsADirectoryError
         else case parent_error fs dst of
                Some e \<Rightarrow> Inl e
              | None \<Rightarrow> Inr (move_tree (fs_del fs dst) src dst)))"

text \<open>
  \<^verbatim>\<open>shutil.copytree(src, dst)\<close>: the destination and its missing parents are made, every entry
  below the source is copied with its mode, and the destination takes the mode of the source.
\<close>

definition copytree :: "nat \<Rightarrow> filesys \<Rightarrow> path \<Rightarrow> path \<Rightarrow> error + filesys" where
  "copytree dmode fs src dst =
     bind_err (os_makedirs False dmode fs dst) (\<lambda>fs1.
       Inr (fs_del fs1 dst
            @ concat (map (\<lambda>q. if prefix src q
                                then (case lookup fs q of
                                        Some n \<Rightarrow> [(dst @ drop (length src) q, n)]
                                      | None \<Rightarrow> [])
                                else []) (paths fs))))"

text \<open>\<^verbatim>\<open>shutil.copy2(src, dst)\<close> for a file: content and mode.\<close>

definition copy2 :: "filesys \<Rightarrow> path \<Rightarrow> path \<Rightarrow> error + filesys" where
  "copy2 fs src dst =
     (case lookup fs src of
        Some (File c m) \<Rightarrow> bind_err (write_file m fs dst c) (\<lambda>fs1. os_chmod fs1 dst m)
      | Some (Dir m) \<Rightarrow> Inl IsADirectoryError
      | None \<Rightarrow> Inl FileNotFoundError)"

text \<open>
  \<^verbatim>\<open>shutil.move(src, dst)\<close>: into \<open>dst\<close> when it is a directory, else onto it; a rename first,
  and when the rename fails a copy followed by the removal of the source.
\<close>

definition shutil_move :: "nat \<Rightarrow> filesys \<Rightarrow> path \<Rightarrow> path \<Rightarrow> error + filesys" where
  "shutil_move dmode fs src dst =
     (if isdir fs dst \<and> src = dst then os_rename fs src dst
      else
        let real_dst = (if isdir fs dst then dst @ [last src] else dst) in
        if isdir fs dst \<and> exists_path fs real_dst then Inl ShutilError
        else case os_rename fs src real_dst of
               Inr fs' \<Rightarrow> Inr fs'
             | Inl e \<Rightarrow>
                 if exists_path fs src \<and> isdir fs src then
                   (if prefix src dst then Inl ShutilError
                    else bind_err (copytree dmode fs src real_dst) (\<lambda>fs1. shutil_rmtree fs1 src))
                 else bind_err (copy2 fs src real_dst) (\<lambda>fs1. os_remove fs1 src))"

text \<open>
  The files \<^verbatim>\<open>os.walk(d)\<close> yields: the files below \<open>d\<close> that are reached through
  directories. The walk is taken as a snapshot of the tree at its start, which is what the
  generator sees as long as the loop body adds nothing below \<open>d\<close>.
\<close>

definition walk_files :: "filesys \<Rightarrow> path \<Rightarrow> path list" where
  "walk_files fs d =
     filter (\<lambda>q. prefix d q \<and> isfile fs q
                  \<and> list_all (\<lambda>k. isdir fs (take k q)) [length d ..< length q])
            (paths fs)"

section \<open>Path strings\<close>

text \<open>\<^verbatim>\<open>os.path.join(a, b)\<close> of \<^verbatim>\<open>posixpath\<close>.\<close>

definition os_path_join :: "string \<Rightarrow> string \<Rightarrow> string" where
  "os_path_join a b =
     (if b \<noteq> [] \<and> hd b = CHR ''/'' then b
      else if a = [] \<or> last a = CHR ''/'' then a @ b
      else a @ ''/'' @ b)"

text \<open>
  How the system resolves a path string: relative to the working directory unless it starts
  with a slash; empty components and \<^verbatim>\<open>.\<close> are skipped, \<^verbatim>\<open>..\<close> steps up.
\<close>

fun resolve_parts :: "path \<Rightarrow> string list \<Rightarrow> path" where
  "resolve_parts base [] = base"
| "resolve_parts base (c # cs) =
     (if c = [] \<or> c = ''.'' then resolve_parts base cs
      else if c = ''..'' then resolve_parts (butlast base) cs
      else resolve_parts (base @ [c]) cs)"

definition resolve :: "path \<Rightarrow> string \<Rightarrow> path" where
  "resolve cwd s =
     resolve_parts (if s \<noteq> [] \<and> hd s = CHR ''/'' then [] else cwd) (split_on CHR ''/'' s)"

section \<open>Archives and the environment\<close>

text \<open>
  One member of a zip archive, as \<^verbatim>\<open>zipfile.ZipInfo\<close> describes it, with its bytes.
\<close>

record member =
  filename :: string
  external_attr :: nat
  content :: string

text \<open>
  What the module takes from outside the repository's sources: the running version
  (\<^verbatim>\<open>ayon_server.version.__version__\<close>), the configured install root
  (\<^verbatim>\<open>ayonconfig.addons_dir\<close>), the working directory and the default modes of the process,
  and the library functions \<^verbatim>\<open>json.loads\<close>, \<^verbatim>\<open>yaml.safe_load\<close>, \<^verbatim>\<open>bytes.decode("utf-8")\<close> and
  the reading of a zip archive's directory by \<^verbatim>\<open>zipfile.ZipFile\<close>, each \<open>None\<close> where the
  library raises.
\<close>

record env =
  ayon_version :: string
  addons_dir :: string
  cwd :: path
  file_mode :: nat
  dir_mode :: nat
  json_loads :: "string \<Rightarrow> pyval option"
  yaml_safe_load :: "string \<Rightarrow> pyval option"
  decode_utf8 :: "string \<Rightarrow> string option"
  read_zip :: "string \<Rightarrow> member list option"

definition namelist :: "member list \<Rightarrow> string list" where
  "namelist z = map filename z"

text \<open>
  \<^verbatim>\<open>zip_ref.open(name).read()\<close>: of several members with one name the archive's table keeps the
  last.
\<close>

definition zip_read :: "member list \<Rightarrow> string \<Rightarrow> error + string" where
  "zip_read z n =
     (case find (\<lambda>m. filename m = n) (rev z) of
        None \<Rightarrow> Inl KeyError
      | Some m \<Rightarrow> Inr (content m))"

text \<open>
  \<^verbatim>\<open>zipfile.ZipFile(path, "r")\<close>. Here and below a path argument is the resolved path of the
  file.
\<close>

definition open_zip :: "env \<Rightarrow> filesys \<Rightarrow> path \<Rightarrow> error + member list" where
  "open_zip E fs p =
     (if isdir fs p then Inl IsADirectoryError
      else case lookup fs p of
             Some (File c m) \<Rightarrow>
               (case read_zip E c of None \<Rightarrow> Inl BadZipFile | Some z \<Rightarrow> Inr z)
           | _ \<Rightarrow> Inl FileNotFoundError)"

section \<open>The manifest parsers\<close>

definition get_addon_info_from_manifest :: "env \<Rightarrow> string \<Rightarrow> error + AddonZipInfo" where
  "get_addon_info_from_manifest E manifest_data =
     (case json_loads E manifest_data of
        None \<Rightarrow> Inl JSONDecodeError
      | Some manifest \<Rightarrow>
          bind_err (dict_get manifest ''addon_name'') (\<lambda>addon_name.
          bind_err (if truthy addon_name then dict_get manifest ''addon_version''
                    else Inr addon_name) (\<lambda>both.
            if \<not> truthy both
            then Inl (UnsupportedAddonException ''Addon name or version not found in manifest'')
            else
              bind_err (dict_get manifest ''name'') (\<lambda>n.
              bind_err (dict_get manifest ''version'') (\<lambda>v.
                make_AddonZipInfo n v ''1.0.0'' (Some ''1.2.0'') False)))))"

text \<open>
  Python's \<^verbatim>\<open>\s\<close> on text: the characters whose \<^verbatim>\<open>str.isspace()\<close> is true, among the code
  points a \<open>char\<close> holds.
\<close>

definition is_space :: "char \<Rightarrow> bool" where
  "is_space c =
     (let n = (of_char c :: nat) in
      (9 \<le> n \<and> n \<le> 13) \<or> (28 \<le> n \<and> n \<le> 32) \<or> n = 133 \<or> n = 160)"

text \<open>
  A match of \<^verbatim>\<open>key\s*=\s*"([^"]+)"\<close> that starts at the head of the text, and its group 1.
  Each greedy repetition is followed by a character it cannot match, so the match takes the
  longest runs and there is nothing to backtrack to.
\<close>

definition match_assignment :: "string \<Rightarrow> string \<Rightarrow> string option" where
  "match_assignment key s =
     (if prefix key s then
        (case dropWhile is_space (drop (length key) s) of
           [] \<Rightarrow> None
         | c # r1 \<Rightarrow>
             if c = CHR ''='' then
               (case dropWhile is_space r1 of
                  [] \<Rightarrow> None
                | q # r2 \<Rightarrow>
                    if q = CHR 0x22 then
                      (let g = takeWhile (\<lambda>x. x \<noteq> CHR 0x22) r2 in
                       if g \<noteq> [] \<and> dropWhile (\<lambda>x. x \<noteq> CHR 0x22) r2 \<noteq> [] then Some g else None)
                    else None)
             else None)
      else None)"

text \<open>\<^verbatim>\<open>re.search\<close>: the match at the leftmost position that has one.\<close>

fun re_search_assignment :: "string \<Rightarrow> string \<Rightarrow> string option" where
  "re_search_assignment key [] = match_assignment key []"
| "re_search_assignment key (c # cs) =
     (case match_assignment key (c # cs) of
        Some g \<Rightarrow> Some g
      | None \<Rightarrow> re_search_assignment key cs)"

definition get_addon_info_from_package_py :: "string \<Rightarrow> error + AddonZipInfo" where
  "get_addon_info_from_package_py manifest_data =
     (let package_name = re_search_assignment ''name'' manifest_data;
          package_version = re_search_assignment ''version'' manifest_data
      in if \<not> (truthy_opt package_name \<and> truthy_opt package_version)
         then Inl (UnsupportedAddonException ''Addon name or version not found in package.py'')
         else Inr \<lparr>name = the package_name, version = the package_version,
                   min_ayon_version = ''1.0.3'', max_ayon_version = None, is_rez = True\<rparr>)"

definition get_addon_info_from_package_yaml :: "env \<Rightarrow> string \<Rightarrow> error + AddonZipInfo" where
  "get_addon_info_from_package_yaml E manifest_data =
     (case yaml_safe_load E manifest_data of
        None \<Rightarrow> Inl YAMLError
      | Some manifest \<Rightarrow>
          bind_err (dict_get manifest ''name'') (\<lambda>n.
          bind_err (if truthy n then dict_get manifest ''version'' else Inr n) (\<lambda>both.
            if \<not> truthy both
            then Inl (UnsupportedAddonException ''Addon name or version not found in package.yaml'')
            else
              bind_err (dict_get manifest ''name'') (\<lambda>n'.
              bind_err (dict_get manifest ''version'') (\<lambda>v'.
                make_AddonZipInfo n' v' ''1.0.3'' None True)))))"

definition PARSERS :: "env \<Rightarrow> (string \<times> (string \<Rightarrow> error + AddonZipInfo)) list" where
  "PARSERS E =
     [(''manifest.json'', get_addon_info_from_manifest E),
      (''package.yaml'', get_addon_info_from_package_yaml E),
      (''package.yml'', get_addon_info_from_package_yaml E),
      (''package.py'', get_addon_info_from_package_py)]"

text \<open>
  The body of the loop of \<^verbatim>\<open>get_addon_zip_info\<close>: the entry is read, decoded and parsed.
\<close>

definition parse_entry ::
  "env \<Rightarrow> member list \<Rightarrow> string \<Rightarrow> (string \<Rightarrow> error + AddonZipInfo) \<Rightarrow> error + AddonZipInfo" where
  "parse_entry E z manifest_name parser =
     bind_err (zip_read z manifest_name) (\<lambda>bytes.
       case decode_utf8 E bytes of
         None \<Rightarrow> Inl UnicodeDecodeError
       | Some manifest \<Rightarrow> parser manifest)"

text \<open>
  The loop over \<^verbatim>\<open>PARSERS\<close>: the first name found in the archive is parsed and the loop is
  left; \<open>None\<close> when no name is found.
\<close>

fun parse_first ::
  "env \<Rightarrow> member list \<Rightarrow> (string \<times> (string \<Rightarrow> error + AddonZipInfo)) list
   \<Rightarrow> error + AddonZipInfo option" where
  "parse_first E z [] = Inr None"
| "parse_first E z ((manifest_name, parser) # rest) =
     (if manifest_name \<in> set (namelist z)
      then bind_err (parse_entry E z manifest_name parser) (\<lambda>zip_info. Inr (Some zip_info))
      else parse_first E z rest)"

definition get_addon_zip_info :: "env \<Rightarrow> filesys \<Rightarrow> path \<Rightarrow> error + AddonZipInfo" where
  "get_addon_zip_info E fs p =
     bind_err (open_zip E fs p) (\<lambda>z.
     bind_err (parse_first E z (PARSERS E)) (\<lambda>zip_info.
       case zip_info of
         None \<Rightarrow> Inl (UnsupportedAddonException ''Unsupported addon format'')
       | Some info \<Rightarrow> compatibility_gate (ayon_version E) info))"

section \<open>Unpacking\<close>

text \<open>
  The state a job changes: the file system, the names the \<^verbatim>\<open>tempfile\<close> module will draw
  next, and the updates sent to the event store with \<^verbatim>\<open>update_event\<close>, oldest first.
\<close>

datatype progress = Percent nat | Downloaded nat int

record update =
  ev_id :: string
  ev_description :: "string option"
  ev_status :: "string option"
  ev_progress :: "progress option"
  ev_summary :: "(AddonZipInfo \<times> string) option"
  ev_store :: bool

record world =
  files :: filesys
  tmp_names :: "string list"
  events :: "update list"

text \<open>A step that may raise after it has changed the file system.\<close>

definition lift_fs :: "filesys \<Rightarrow> error + filesys \<Rightarrow> (error + unit) \<times> filesys" where
  "lift_fs fs r = (case r of Inl e \<Rightarrow> (Inl e, fs) | Inr fs' \<Rightarrow> (Inr (), fs'))"

definition and_then ::
  "(error + unit) \<times> filesys \<Rightarrow> (filesys \<Rightarrow> (error + unit) \<times> filesys) \<Rightarrow> (error + unit) \<times> filesys" where
  "and_then r f = (case fst r of Inl e \<Rightarrow> r | Inr u \<Rightarrow> f (snd r))"

text \<open>
  \<^verbatim>\<open>tempfile.mkdtemp(dir=d)\<close> and \<^verbatim>\<open>tempfile.mkstemp(dir=d)\<close>: the drawn names are tried in turn,
  a name that exists is skipped, any other error is raised; with the names used up the module
  raises \<^verbatim>\<open>FileExistsError\<close>. The second component is the names left.
\<close>

definition os_create :: "filesys \<Rightarrow> path \<Rightarrow> nat \<Rightarrow> error + filesys" where
  "os_create fs p mode =
     (if exists_path fs p then Inl FileExistsError
      else case parent_error fs p of
             Some e \<Rightarrow> Inl e
           | None \<Rightarrow> Inr (fs_put fs p (File [] mode)))"

fun mkdtemp :: "filesys \<Rightarrow> path \<Rightarrow> string list \<Rightarrow> (error + path \<times> filesys) \<times> string list" where
  "mkdtemp fs d [] = (Inl FileExistsError, [])"
| "mkdtemp fs d (n # rest) =
     (case os_mkdir fs (d @ [n]) 448 of
        Inr fs' \<Rightarrow> (Inr (d @ [n], fs'), rest)
      | Inl e \<Rightarrow> if e = FileExistsError then mkdtemp fs d rest else (Inl e, rest))"

fun mkstemp :: "filesys \<Rightarrow> path \<Rightarrow> string list \<Rightarrow> (error + path \<times> filesys) \<times> string list" where
  "mkstemp fs d [] = (Inl FileExistsError, [])"
| "mkstemp fs d (n # rest) =
     (case os_create fs (d @ [n]) 384 of
        Inr fs' \<Rightarrow> (Inr (d @ [n], fs'), rest)
      | Inl e \<Rightarrow> if e = FileExistsError then mkstemp fs d rest else (Inl e, rest))"

text \<open>
  \<^verbatim>\<open>zip_ref.extract(member, tmpdirname)\<close>: the member's name loses its empty, \<^verbatim>\<open>.\<close> and \<^verbatim>\<open>..\<close>
  components, the missing parent directories are made, and the member becomes a directory
  (when its name ends with a slash) or a file.
\<close>

definition arc_parts :: "member \<Rightarrow> path" where
  "arc_parts m = filter (\<lambda>x. x \<noteq> [] \<and> x \<noteq> ''.'' \<and> x \<noteq> ''..'') (split_on CHR ''/'' (filename m))"

definition is_dir_member :: "member \<Rightarrow> bool" where
  "is_dir_member m = (filename m \<noteq> [] \<and> last (filename m) = CHR ''/'')"

definition zip_extract :: "env \<Rightarrow> filesys \<Rightarrow> path \<Rightarrow> member \<Rightarrow> error + filesys" where
  "zip_extract E fs tmp m =
     (let targetpath = tmp @ arc_parts m;
          upperdirs = butlast targetpath
      in bind_err (if upperdirs \<noteq> [] \<and> \<not> exists_path fs upperdirs
                   then os_makedirs False (dir_mode E) fs upperdirs else Inr fs) (\<lambda>fs1.
           if is_dir_member m then
             (if \<not> isdir fs1 targetpath then os_mkdir fs1 targetpath (dir_mode E) else Inr fs1)
           else write_file (file_mode E) fs1 targetpath (content m)))"

text \<open>
  The loop over \<^verbatim>\<open>zip_ref.infolist()\<close>: each member is extracted, and given the mode recorded
  in the upper 16 bits of its attributes when that mode is not 0.
\<close>

fun extract_all :: "env \<Rightarrow> path \<Rightarrow> filesys \<Rightarrow> member list \<Rightarrow> (error + unit) \<times> filesys" where
  "extract_all E tmp fs [] = (Inr (), fs)"
| "extract_all E tmp fs (m # ms) =
     and_then (lift_fs fs (zip_extract E fs tmp m)) (\<lambda>fs1.
     and_then (let original_mode = external_attr m div 65536 in
               if original_mode \<noteq> 0
               then lift_fs fs1 (os_chmod fs1 (tmp @ arc_parts m) original_mode)
               else (Inr (), fs1)) (\<lambda>fs2.
       extract_all E tmp fs2 ms))"

text \<open>
  The loop over the files of \<^verbatim>\<open>os.walk(tmpdirname)\<close> for a rez package: each file is moved to
  the same relative path below the target.
\<close>

fun move_files :: "env \<Rightarrow> path \<Rightarrow> path \<Rightarrow> filesys \<Rightarrow> path list \<Rightarrow> (error + unit) \<times> filesys" where
  "move_files E tmp target_dir fs [] = (Inr (), fs)"
| "move_files E tmp target_dir fs (source_file # rest) =
     (let target_file = target_dir @ drop (length tmp) source_file in
      and_then (lift_fs fs (os_makedirs True (dir_mode E) fs (butlast target_file))) (\<lambda>fs1.
      and_then (lift_fs fs1 (shutil_move (dir_mode E) fs1 source_file target_file)) (\<lambda>fs2.
        move_files E tmp target_dir fs2 rest)))"

text \<open>The body of \<^verbatim>\<open>with tempfile.TemporaryDirectory(dir=addon_root_dir) as tmpdirname\<close>.\<close>

definition unpack_body ::
  "env \<Rightarrow> filesys \<Rightarrow> path \<Rightarrow> path \<Rightarrow> path \<Rightarrow> AddonZipInfo \<Rightarrow> (error + unit) \<times> filesys" where
  "unpack_body E fs tmp target_dir zip_path zip_info =
     (case open_zip E fs zip_path of
        Inl e \<Rightarrow> (Inl e, fs)
      | Inr z \<Rightarrow>
          and_then (extract_all E tmp fs z) (\<lambda>fs1.
          and_then (if isdir fs1 target_dir then lift_fs fs1 (shutil_rmtree fs1 target_dir)
                    else (Inr (), fs1)) (\<lambda>fs2.
            if is_rez zip_info then
              and_then (move_files E tmp target_dir fs2 (walk_files fs2 tmp)) (\<lambda>fs3.
                lift_fs fs3 (shutil_rmtree fs3 tmp))
            else lift_fs fs2 (shutil_move (dir_mode E) fs2 (tmp @ [''addon'']) target_dir))))"

definition target_dir_of :: "env \<Rightarrow> AddonZipInfo \<Rightarrow> path" where
  "target_dir_of E zip_info =
     resolve (cwd E)
       (os_path_join (os_path_join (addons_dir E) (name zip_info)) (version zip_info))"

text \<open>
  \<^verbatim>\<open>unpack_addon_sync\<close>. Leaving the \<^verbatim>\<open>with\<close> block, normally or by an exception, removes
  whatever is at or below the scratch directory.
\<close>

definition unpack_addon_sync :: "env \<Rightarrow> world \<Rightarrow> path \<Rightarrow> AddonZipInfo \<Rightarrow> (error + unit) \<times> world" where
  "unpack_addon_sync E w zip_path zip_info =
     (let addon_root_dir = resolve (cwd E) (addons_dir E) in
      case os_makedirs True (dir_mode E) (files w) addon_root_dir of
        Inl e \<Rightarrow> (Inl e, w)
      | Inr fs1 \<Rightarrow>
          (case mkdtemp fs1 addon_root_dir (tmp_names w) of
             (Inl e, ns) \<Rightarrow> (Inl e, w\<lparr>files := fs1, tmp_names := ns\<rparr>)
           | (Inr (tmpdirname, fs2), ns) \<Rightarrow>
               (let r = unpack_body E fs2 tmpdirname (target_dir_of E zip_info) zip_path zip_info
                in (fst r, w\<lparr>files := fs_del_tree (snd r) tmpdirname, tmp_names := ns\<rparr>))))"

section \<open>The jobs\<close>

text \<open>
  \<^verbatim>\<open>update_event(event_id, ...)\<close> belongs to \<^verbatim>\<open>ayon_server.events\<close>; here it appends the update to
  the record of the updates sent, and does not raise.
\<close>

definition update_event :: "world \<Rightarrow> update \<Rightarrow> world" where
  "update_event w u = w\<lparr>events := events w @ [u]\<rparr>"

definition status_update :: "string \<Rightarrow> string \<Rightarrow> string \<Rightarrow> update" where
  "status_update event_id description status =
     \<lparr>ev_id = event_id, ev_description = Some description, ev_status = Some status,
      ev_progress = None, ev_summary = None, ev_store = True\<rparr>"

text \<open>\<^verbatim>\<open>str(e)\<close> of an exception, as the messages quote it.\<close>

fun error_text :: "error \<Rightarrow> string" where
  "error_text (UnsupportedAddonException msg) = msg"
| "error_text ValueError = ''ValueError''"
| "error_text ValidationError = ''ValidationError''"
| "error_text AttributeError = ''AttributeError''"
| "error_text JSONDecodeError = ''JSONDecodeError''"
| "error_text YAMLError = ''YAMLError''"
| "error_text UnicodeDecodeError = ''UnicodeDecodeError''"
| "error_text BadZipFile = ''File is not a zip file''"
| "error_text KeyError = ''KeyError''"
| "error_text FileNotFoundError = ''No such file or directory''"
| "error_text FileExistsError = ''File exists''"
| "error_text NotADirectoryError = ''Not a directory''"
| "error_text IsADirectoryError = ''Is a directory''"
| "error_text OSError = ''OSError''"
| "error_text ShutilError = ''shutil.Error''"
| "error_text TransportError = ''TransportError''"

text \<open>
  \<^verbatim>\<open>unpack_addon\<close>, the job that installs a local archive whose descriptor the caller has
  read: an error of the unpacking is reported, the archive is removed (an error of the
  removal is only logged), and the last update is sent.
\<close>

definition unpack_addon :: "env \<Rightarrow> world \<Rightarrow> string \<Rightarrow> path \<Rightarrow> AddonZipInfo \<Rightarrow> (error + unit) \<times> world" where
  "unpack_addon E w event_id zip_path zip_info =
     (let w1 = update_event w
                 (status_update event_id
                    (''Unpacking addon '' @ name zip_info @ '' '' @ version zip_info) ''in_progress'');
          r = unpack_addon_sync E w1 zip_path zip_info;
          w2 = (case fst r of
                  Inl e \<Rightarrow>
                    update_event (snd r)
                      (status_update event_id (''Error while unpacking addon: '' @ error_text e) ''failed'')
                | Inr u \<Rightarrow> snd r);
          w3 = (case os_remove (files w2) zip_path of
                  Inl e \<Rightarrow> w2
                | Inr fs' \<Rightarrow> w2\<lparr>files := fs'\<rparr>)
      in (Inr (),
          update_event w3
            (status_update event_id
               (''Addon '' @ name zip_info @ '' '' @ version zip_info @ '' installed'') ''finished'')))"

text \<open>
  What the HTTP client delivers for \<^verbatim>\<open>client.stream("GET", url)\<close>: no response at all, or a
  response with its status, its \<^verbatim>\<open>content-length\<close> header (absent, an integer, or text that
  \<^verbatim>\<open>int\<close> rejects), the chunks received, each with the outcome of the clock test
  \<^verbatim>\<open>time.time() - last_time > 1\<close> made after it, and whether the stream broke off after them.
\<close>

datatype length_header = NoLength | Length int | BadLength

record response =
  status_code :: nat
  content_length :: length_header
  chunks :: "(string \<times> bool) list"
  stream_error :: bool

datatype fetch = ConnectFailed | Responded response

text \<open>
  The loop over \<^verbatim>\<open>response.aiter_bytes()\<close>: the chunk is appended to the scratch file, and a
  progress update (not stored) is sent when the length is known and the clock test holds. The
  progress value is computed in floating point from the bytes written and the length, and is
  recorded by these two numbers.
\<close>

definition append_file :: "filesys \<Rightarrow> path \<Rightarrow> string \<Rightarrow> filesys" where
  "append_file fs p bytes =
     (case lookup fs p of
        Some (File c m) \<Rightarrow> fs_put fs p (File (c @ bytes) m)
      | _ \<Rightarrow> fs)"

fun write_chunks :: "string \<Rightarrow> int \<Rightarrow> path \<Rightarrow> nat \<Rightarrow> world \<Rightarrow> (string \<times> bool) list \<Rightarrow> world" where
  "write_chunks event_id file_size zip_path i w [] = w"
| "write_chunks event_id file_size zip_path i w ((chunk, tick) # rest) =
     (let w1 = w\<lparr>files := append_file (files w) zip_path chunk\<rparr>;
          i' = i + length chunk;
          w2 = (if file_size \<noteq> 0 \<and> tick
                then update_event w1
                       \<lparr>ev_id = event_id, ev_description = None, ev_status = None,
                        ev_progress = Some (Downloaded i' file_size), ev_summary = None,
                        ev_store = False\<rparr>
                else w1)
      in write_chunks event_id file_size zip_path i' w2 rest)"

text \<open>
  The body of \<^verbatim>\<open>with tempfile.NamedTemporaryFile(dir=ayonconfig.addons_dir)\<close> in
  \<^verbatim>\<open>install_addon_from_url\<close>: the download, the reading of the descriptor, the unpacking. The
  status of the response is not looked at.
\<close>

definition install_body ::
  "env \<Rightarrow> world \<Rightarrow> string \<Rightarrow> string \<Rightarrow> fetch \<Rightarrow> path \<Rightarrow> (error + AddonZipInfo) \<times> world" where
  "install_body E w event_id url f zip_path =
     (case f of
        ConnectFailed \<Rightarrow> (Inl TransportError, w)
      | Responded r \<Rightarrow>
          (case content_length r of
             BadLength \<Rightarrow> (Inl ValueError, w)
           | _ \<Rightarrow>
               (let file_size = (case content_length r of Length n \<Rightarrow> n | _ \<Rightarrow> 0) in
                case write_file (file_mode E) (files w) zip_path [] of
                  Inl e \<Rightarrow> (Inl e, w)
                | Inr fs1 \<Rightarrow>
                    (let w1 = write_chunks event_id file_size zip_path 0 (w\<lparr>files := fs1\<rparr>) (chunks r)
                     in if stream_error r then (Inl TransportError, w1)
                        else
                          (case get_addon_zip_info E (files w1) zip_path of
                             Inl e \<Rightarrow> (Inl e, w1)
                           | Inr zip_info \<Rightarrow>
                               (let w2 = update_event w1
                                           \<lparr>ev_id = event_id,
                                            ev_description =
                                              Some (''Installing addon '' @ name zip_info @ '' ''
                                                    @ version zip_info),
                                            ev_status = Some ''in_progress'',
                                            ev_progress = Some (Percent 50),
                                            ev_summary = Some (zip_info, url),
                                            ev_store = True\<rparr>;
                                    r3 = unpack_addon_sync E w2 zip_path zip_info
                                in (case fst r3 of
                                      Inl e \<Rightarrow> (Inl e, snd r3)
                                    | Inr u \<Rightarrow> (Inr zip_info, snd r3))))))))"

text \<open>
  \<^verbatim>\<open>install_addon_from_url\<close>. Leaving the \<^verbatim>\<open>with\<close> block, normally or by an exception, unlinks
  the scratch file; when that fails, its error is the one raised.
\<close>

definition install_addon_from_url ::
  "env \<Rightarrow> world \<Rightarrow> string \<Rightarrow> string \<Rightarrow> fetch \<Rightarrow> (error + unit) \<times> world" where
  "install_addon_from_url E w event_id url f =
     (let w1 = update_event w
                 (status_update event_id (''Downloading addon from URL '' @ url) ''in_progress'')
      in case mkstemp (files w1) (resolve (cwd E) (addons_dir E)) (tmp_names w1) of
           (Inl e, ns) \<Rightarrow> (Inl e, w1\<lparr>tmp_names := ns\<rparr>)
         | (Inr (zip_path, fs2), ns) \<Rightarrow>
             (let r = install_body E (w1\<lparr>files := fs2, tmp_names := ns\<rparr>) event_id url f zip_path
              in case os_remove (files (snd r)) zip_path of
                   Inl e \<Rightarrow> (Inl e, snd r)
                 | Inr fs4 \<Rightarrow>
                     (case fst r of
                        Inl e \<Rightarrow> (Inl e, (snd r)\<lparr>files := fs4\<rparr>)
                      | Inr zip_info \<Rightarrow>
                          (Inr (),
                           update_event ((snd r)\<lparr>files := fs4\<rparr>)
                             (status_update event_id
                                (''Addon '' @ name zip_info @ '' '' @ version zip_info @ '' installed'')
                                ''finished'')))))"

text \<open>The scratch file \<^verbatim>\<open>install_addon_from_url\<close> creates, when it can create one.\<close>

definition scratch_file :: "env \<Rightarrow> world \<Rightarrow> path option" where
  "scratch_file E w =
     (case fst (mkstemp (files w) (resolve (cwd E) (addons_dir E)) (tmp_names w)) of
        Inl e \<Rightarrow> None
      | Inr r \<Rightarrow> Some (fst r))"

section \<open>Examples\<close>

text \<open>
  An environment for the worked examples: version 1.1.0 runs, the install root is
  \<^verbatim>\<open>/addons\<close>, and the libraries are given on the documents and archives of the examples
  (an archive's bytes stand for the zip file with the listed members).
\<close>

definition manifest_tvpaint :: string where
  \<open>manifest_tvpaint = ''{"name":"tvpaint","version":"1.0.0"}''\<close>

definition manifest_legacy :: string where
  \<open>manifest_legacy =
     ''{"addon_name":"tvpaint","addon_version":"1.0.0","name":"tvpaint","version":"1.0.0"}''\<close>

definition manifest_empty_name :: string where
  \<open>manifest_empty_name =
     ''{"addon_name":"tvpaint","addon_version":"1.0.0","name":"","version":""}''\<close>

definition package_maya :: string where
  \<open>package_maya = ''{name: maya, version: 2.0.0}''\<close>

definition example_json_loads :: "string \<Rightarrow> pyval option" where
  "example_json_loads s =
     (if s = manifest_tvpaint
      then Some (PDict [(PStr ''name'', PStr ''tvpaint''), (PStr ''version'', PStr ''1.0.0'')])
      else if s = manifest_legacy
      then Some (PDict [(PStr ''addon_name'', PStr ''tvpaint''), (PStr ''addon_version'', PStr ''1.0.0''),
                        (PStr ''name'', PStr ''tvpaint''), (PStr ''version'', PStr ''1.0.0'')])
      else if s = manifest_empty_name
      then Some (PDict [(PStr ''addon_name'', PStr ''tvpaint''), (PStr ''addon_version'', PStr ''1.0.0''),
                        (PStr ''name'', PStr []), (PStr ''version'', PStr [])])
      else None)"

definition example_yaml_safe_load :: "string \<Rightarrow> pyval option" where
  "example_yaml_safe_load s =
     (if s = package_maya
      then Some (PDict [(PStr ''name'', PStr ''maya''), (PStr ''version'', PStr ''2.0.0'')])
      else None)"

definition file_member :: "string \<Rightarrow> string \<Rightarrow> member" where
  "file_member n c = \<lparr>filename = n, external_attr = 420 * 65536, content = c\<rparr>"

definition zip_tvpaint :: "member list" where
  "zip_tvpaint =
     [file_member ''manifest.json'' manifest_tvpaint,
      file_member ''addon/__init__.py'' ''print(1)'']"

definition zip_legacy :: "member list" where
  "zip_legacy =
     [file_member ''manifest.json'' manifest_legacy,
      file_member ''addon/__init__.py'' ''print(2)'']"

definition zip_legacy_no_payload :: "member list" where
  "zip_legacy_no_payload = [file_member ''manifest.json'' manifest_legacy]"

definition zip_both :: "member list" where
  "zip_both =
     [file_member ''package.yaml'' package_maya,
      file_member ''manifest.json'' manifest_legacy,
      file_member ''addon/__init__.py'' ''print(3)'']"

definition zip_empty_name :: "member list" where
  "zip_empty_name = [file_member ''manifest.json'' manifest_empty_name]"

definition zip_maya :: "member list" where
  "zip_maya =
     [file_member ''package.yaml'' package_maya,
      file_member ''server/__init__.py'' ''print(4)'']"

definition zip_no_manifest :: "member list" where
  "zip_no_manifest = [file_member ''README.txt'' ''hello'']"

definition example_read_zip :: "string \<Rightarrow> member list option" where
  "example_read_zip bytes =
     (if bytes = ''PK:tvpaint'' then Some zip_tvpaint
      else if bytes = ''PK:legacy'' then Some zip_legacy
      else if bytes = ''PK:legacy-no-payload'' then Some zip_legacy_no_payload
      else if bytes = ''PK:both'' then Some zip_both
      else if bytes = ''PK:empty-name'' then Some zip_empty_name
      else if bytes = ''PK:maya'' then Some zip_maya
      else if bytes = ''PK:no-manifest'' then Some zip_no_manifest
      else None)"

definition example_env :: env where
  "example_env =
     \<lparr>ayon_version = ''1.1.0'', addons_dir = ''/addons'', cwd = [], file_mode = 420,
      dir_mode = 493, json_loads = example_json_loads, yaml_safe_load = example_yaml_safe_load,
      decode_utf8 = Some, read_zip = example_read_zip\<rparr>"

text \<open>A world whose install root exists and holds the archive \<open>bytes\<close> at \<^verbatim>\<open>/upload.zip\<close>.\<close>

definition example_world :: "string \<Rightarrow> world" where
  "example_world bytes =
     \<lparr>files = [([''addons''], Dir 493), ([''upload.zip''], File bytes 420)],
      tmp_names = [''tmp0'', ''tmp1'', ''tmp2''], events = []\<rparr>"

definition tvpaint_info :: AddonZipInfo where
  "tvpaint_info =
     \<lparr>name = ''tvpaint'', version = ''1.0.0'', min_ayon_version = ''1.0.0'',
      max_ayon_version = Some ''1.2.0'', is_rez = False\<rparr>"

definition maya_info :: AddonZipInfo where
  "maya_info =
     \<lparr>name = ''maya'', version = ''2.0.0'', min_ayon_version = ''1.0.3'',
      max_ayon_version = None, is_rez = True\<rparr>"

text \<open>A server that answers 404 with a short text, and servers that deliver an archive.\<close>

definition response_404 :: response where
  "response_404 =
     \<lparr>status_code = 404, content_length = NoLength, chunks = [(''Not Found'', False)],
      stream_error = False\<rparr>"

definition response_ok :: "string \<Rightarrow> response" where
  "response_ok bytes =
     \<lparr>status_code = 200, content_length = Length (int (length bytes)),
      chunks = [(take 3 bytes, False), (drop 3 bytes, True)], stream_error = False\<rparr>"

text \<open>
  The transfer itself fails: the client gets no response, or the stream breaks off.
\<close>

definition transfer_fails :: "fetch \<Rightarrow> bool" where
  "transfer_fails f =
     (case f of
        ConnectFailed \<Rightarrow> True
      | Responded r \<Rightarrow> stream_error r \<and> content_length r \<noteq> BadLength)"

text \<open>The updates that carry a status.\<close>

definition status_updates :: "world \<Rightarrow> update list" where
  "status_updates w = filter (\<lambda>u. ev_status u \<noteq> None) (events w)"

section \<open>Notions for stating the properties of the unpacking\<close>

text \<open>
  A name that is one path component, as the name and the version of a package are: not
  empty, without a slash, and neither \<^verbatim>\<open>.\<close> nor \<^verbatim>\<open>..\<close>.
\<close>

definition is_component :: "string \<Rightarrow> bool" where
  "is_component s = (s \<noteq> [] \<and> CHR ''/'' \<notin> set s \<and> s \<noteq> ''.'' \<and> s \<noteq> ''..'')"

text \<open>A file system is a tree: every entry lies in a directory.\<close>

definition wf_fs :: "filesys \<Rightarrow> bool" where
  "wf_fs fs = list_all (\<lambda>e. fst e \<noteq> [] \<and> isdir fs (butlast (fst e))) fs"

definition install_root :: "env \<Rightarrow> path" where
  "install_root E = resolve (cwd E) (addons_dir E)"

text \<open>The tree the members of an archive make when they are extracted into an empty directory.\<close>

definition archive_tree :: "env \<Rightarrow> member list \<Rightarrow> filesys" where
  "archive_tree E z = snd (extract_all E [] [] z)"

text \<open>
  What the relocation of \<^verbatim>\<open>unpack_addon_sync\<close> is to place at the relative path \<open>rel\<close> below the
  target directory, from the archive alone. For a package with an \<^verbatim>\<open>addon\<close> directory: the entry
  at \<^verbatim>\<open>addon/rel\<close>. For a rez package: the file at \<open>rel\<close>, and a directory with the default mode
  for every path that leads to a file.
\<close>

definition payload :: "env \<Rightarrow> AddonZipInfo \<Rightarrow> member list \<Rightarrow> path \<Rightarrow> node option" where
  "payload E zip_info z rel =
     (let t = archive_tree E z in
      if is_rez zip_info then
        (if rel \<in> set (walk_files t []) then lookup t rel
         else if list_ex (\<lambda>s. prefix rel s \<and> s \<noteq> rel) (walk_files t []) then Some (Dir (dir_mode E))
         else None)
      else lookup t (''addon'' # rel))"

section \<open>Properties of the version comparison\<close>

lemma is_digit_iff: "is_digit c \<longleftrightarrow> 48 \<le> (of_char c :: nat) \<and> (of_char c :: nat) \<le> 57"
  by (simp add: is_digit_def less_eq_char_def)

lemma digit_val_lt: "is_digit c \<Longrightarrow> digit_val c < 10"
  unfolding is_digit_iff digit_val_def by linarith

lemma digit_val_inj: "is_digit c \<Longrightarrow> is_digit d \<Longrightarrow> digit_val c = digit_val d \<Longrightarrow> c = d"
proof -
  assume "is_digit c" "is_digit d" "digit_val c = digit_val d"
  then have "(of_char c :: nat) = of_char d"
    unfolding is_digit_iff digit_val_def by linarith
  then show "c = d" by simp
qed

lemma digit_val_zero: "is_digit c \<Longrightarrow> digit_val c = 0 \<Longrightarrow> c = CHR ''0''"
  using digit_val_inj [of c "CHR ''0''"] by (simp add: is_digit_iff digit_val_def)

lemma int_of_digits_snoc: "int_of_digits (s @ [c]) = 10 * int_of_digits s + digit_val c"
  by (simp add: int_of_digits_def)

lemma int_of_digits_upper: "list_all is_digit s \<Longrightarrow> int_of_digits s < 10 ^ length s"
proof (induction s rule: rev_induct)
  case Nil
  then show ?case by (simp add: int_of_digits_def)
next
  case (snoc x xs)
  then have "int_of_digits xs < 10 ^ length xs" and "digit_val x < 10"
    by (simp_all add: digit_val_lt)
  then show ?case by (simp add: int_of_digits_snoc)
qed

lemma int_of_digits_lower:
  "list_all is_digit s \<Longrightarrow> s \<noteq> [] \<Longrightarrow> hd s \<noteq> CHR ''0'' \<Longrightarrow> 10 ^ (length s - 1) \<le> int_of_digits s"
proof (induction s rule: rev_induct)
  case Nil
  then show ?case by simp
next
  case (snoc x xs)
  show ?case
  proof (cases "xs = []")
    case True
    with snoc.prems have "is_digit x" "x \<noteq> CHR ''0''" by simp_all
    then have "digit_val x \<noteq> 0" using digit_val_zero by blast
    with True show ?thesis by (simp add: int_of_digits_def)
  next
    case False
    with snoc have "10 ^ (length xs - 1) \<le> int_of_digits xs" by simp
    then have "10 * 10 ^ (length xs - 1) \<le> 10 * int_of_digits xs" by simp
    moreover have "10 * 10 ^ (length xs - 1) = (10::nat) ^ length xs"
      using False by (cases xs) simp_all
    ultimately show ?thesis by (simp add: int_of_digits_snoc)
  qed
qed

lemma int_of_digits_inj_len:
  "list_all is_digit s \<Longrightarrow> list_all is_digit t \<Longrightarrow> length s = length t
   \<Longrightarrow> int_of_digits s = int_of_digits t \<Longrightarrow> s = t"
proof (induction s arbitrary: t rule: rev_induct)
  case Nil
  then show ?case by simp
next
  case (snoc x xs)
  then obtain y ys where t: "t = ys @ [y]" by (cases t rule: rev_cases) auto
  from snoc.prems t have d: "is_digit x" "is_digit y" "list_all is_digit xs" "list_all is_digit ys"
    and l: "length xs = length ys" by simp_all
  from snoc.prems(4) t have e: "10 * int_of_digits xs + digit_val x = 10 * int_of_digits ys + digit_val y"
    by (simp add: int_of_digits_snoc)
  have "digit_val x < 10" "digit_val y < 10" using d by (simp_all add: digit_val_lt)
  with e have "int_of_digits xs = int_of_digits ys" "digit_val x = digit_val y" by presburger+
  with snoc.IH [OF d(3) d(4) l] d t show ?case by (simp add: digit_val_inj)
qed

lemma numeric_ident_inj:
  assumes "is_numeric_ident s" "is_numeric_ident t" "int_of_digits s = int_of_digits t"
  shows "s = t"
proof -
  have pos: "0 < int_of_digits u" if "is_numeric_ident u" "u \<noteq> ''0''" for u
  proof -
    from that have "list_all is_digit u" "u \<noteq> []" "hd u \<noteq> CHR ''0''"
      by (auto simp: is_numeric_ident_def all_digits_def)
    from int_of_digits_lower [OF this] show ?thesis
      by (metis less_le_trans zero_less_numeral zero_less_power)
  qed
  have z: "int_of_digits ''0'' = 0" by (simp add: int_of_digits_def digit_val_def)
  show ?thesis
  proof (cases "s = ''0'' \<or> t = ''0''")
    case True
    then show ?thesis using pos [of s] pos [of t] assms z by (metis less_numeral_extra(3))
  next
    case False
    with assms have ds: "list_all is_digit s" "s \<noteq> []" "hd s \<noteq> CHR ''0''"
      and dt: "list_all is_digit t" "t \<noteq> []" "hd t \<noteq> CHR ''0''"
      by (auto simp: is_numeric_ident_def all_digits_def)
    have "(10::nat) ^ (length s - 1) < 10 ^ length t"
      using int_of_digits_lower [OF ds] int_of_digits_upper [OF dt(1)] assms(3)
      by (metis le_less_trans)
    then have a: "length s - 1 < length t" by (rule power_less_imp_less_exp [rotated]) simp
    have "(10::nat) ^ (length t - 1) < 10 ^ length s"
      using int_of_digits_lower [OF dt] int_of_digits_upper [OF ds(1)] assms(3)
      by (metis le_less_trans)
    then have b: "length t - 1 < length s" by (rule power_less_imp_less_exp [rotated]) simp
    from a b have "length s = length t" by simp
    with ds dt assms(3) show ?thesis by (simp add: int_of_digits_inj_len)
  qed
qed

lemma convert_inj:
  "is_prerelease_ident s \<Longrightarrow> is_prerelease_ident t \<Longrightarrow> convert s = convert t \<Longrightarrow> s = t"
  by (auto simp: convert_def is_prerelease_ident_def split: if_splits intro: numeric_ident_inj)

lemma map_convert_inj:
  "list_all is_prerelease_ident A \<Longrightarrow> list_all is_prerelease_ident B
   \<Longrightarrow> map convert A = map convert B \<Longrightarrow> A = B"
proof (induction A arbitrary: B)
  case Nil
  then show ?case by simp
next
  case (Cons a A)
  then show ?case by (cases B) (auto dest: convert_inj)
qed

lemma split_on_not_Nil: "split_on c s \<noteq> []"
  by (induction s) (auto split: list.splits)

lemma split_on_length: "(\<Sum>w\<leftarrow>split_on c s. Suc (length w)) = Suc (length s)"
  by (induction s) (auto split: list.splits simp: split_on_not_Nil)

lemma cmp_tag_zero: "cmp_prerelease_tag x y = 0 \<longleftrightarrow> x = y"
  by (cases x; cases y) (auto simp: cmp_def)

lemma cmp_tag_val: "x \<noteq> y \<Longrightarrow> cmp_prerelease_tag x y = (if ident_less x y then - 1 else 1)"
  by (cases x; cases y) (auto simp: cmp_def)

lemma ident_less_irrefl: "\<not> ident_less x x"
  by (cases x) auto

lemma ident_less_asym: "ident_less x y \<Longrightarrow> \<not> ident_less y x"
  by (cases x; cases y) auto

lemma ident_less_connex: "x \<noteq> y \<Longrightarrow> \<not> ident_less x y \<Longrightarrow> ident_less y x"
  by (cases x; cases y) auto

lemma idents_less_prefix: "prefix xs ys \<Longrightarrow> idents_less xs ys \<longleftrightarrow> xs \<noteq> ys"
  by (induction xs ys rule: idents_less.induct) (auto simp: ident_less_irrefl)

lemma idents_less_prefix': "prefix ys xs \<Longrightarrow> \<not> idents_less xs ys"
  by (induction xs ys rule: idents_less.induct) (auto simp: ident_less_irrefl)

lemma idents_less_trichotomy:
  "(idents_less xs ys \<longrightarrow> \<not> idents_less ys xs \<and> xs \<noteq> ys)
   \<and> (\<not> idents_less xs ys \<longrightarrow> xs \<noteq> ys \<longrightarrow> idents_less ys xs)"
  by (induction xs ys rule: idents_less.induct)
    (auto simp: ident_less_irrefl dest: ident_less_asym ident_less_connex)

lemma idents_less_irrefl: "\<not> idents_less xs xs"
  using idents_less_trichotomy [of xs xs] by blast

lemma first_nonzero_eq:
  "first_nonzero xs ys d =
     (if prefix xs ys \<or> prefix ys xs then d else if idents_less xs ys then - 1 else 1)"
proof (induction xs ys d rule: first_nonzero.induct)
  case (1 x xs y ys d)
  then show ?case by (auto simp: cmp_tag_zero cmp_tag_val ident_less_irrefl)
qed auto

lemma sum_take_le:
  "n < length B \<Longrightarrow> (\<Sum>w\<leftarrow>take n B. Suc (length w)) < (\<Sum>w\<leftarrow>B. Suc (length (w::string)))"
proof -
  assume n: "n < length B"
  have "(\<Sum>w\<leftarrow>B. Suc (length w)) = (\<Sum>w\<leftarrow>take n B. Suc (length w)) + (\<Sum>w\<leftarrow>drop n B. Suc (length w))"
    by (metis append_take_drop_id map_append sum_list_append)
  moreover from n have "drop n B \<noteq> []" by simp
  then have "0 < (\<Sum>w\<leftarrow>drop n B. Suc (length w))" by (cases "drop n B") simp_all
  ultimately show ?thesis by simp
qed

lemma prefix_lengths:
  assumes A: "list_all is_prerelease_ident (split_on CHR ''.'' p)"
    and B: "list_all is_prerelease_ident (split_on CHR ''.'' q)"
    and pre: "prefix (split_key p) (split_key q)"
  shows "cmp (length p) (length q) = (if split_key p = split_key q then 0 else - 1)"
proof -
  let ?A = "split_on CHR ''.'' p" and ?B = "split_on CHR ''.'' q"
  from pre have len: "length ?A \<le> length ?B"
    by (metis split_key_def length_map prefix_length_le)
  from pre have "map convert ?A = take (length ?A) (map convert ?B)"
    by (metis split_key_def length_map prefix_def append_eq_conv_conj)
  then have "map convert ?A = map convert (take (length ?A) ?B)" by (simp add: take_map)
  moreover have "list_all is_prerelease_ident (take (length ?A) ?B)"
    using B by (metis append_take_drop_id list_all_append)
  ultimately have eq: "?A = take (length ?A) ?B" using A map_convert_inj by blast
  show ?thesis
  proof (cases "split_key p = split_key q")
    case True
    then have "length ?A = length ?B" by (metis split_key_def length_map)
    with eq have "?A = ?B" by simp
    then have "Suc (length p) = Suc (length q)" by (metis split_on_length)
    with True show ?thesis by (simp add: cmp_def)
  next
    case False
    with len have "length ?A < length ?B"
      by (metis eq le_neq_implies_less split_key_def take_all order_refl)
    from sum_take_le [OF this] eq have "Suc (length p) < Suc (length q)"
      by (metis split_on_length)
    with False show ?thesis by (simp add: cmp_def)
  qed
qed

lemma cmp_flip: "cmp (a::nat) b = - cmp b a"
  by (simp add: cmp_def)

lemma nat_cmp_Some:
  assumes A: "list_all is_prerelease_ident (split_on CHR ''.'' p)"
    and B: "list_all is_prerelease_ident (split_on CHR ''.'' q)"
  shows "nat_cmp (Some p) (Some q) =
           (if idents_less (split_key p) (split_key q) then - 1
            else if idents_less (split_key q) (split_key p) then 1 else 0)"
proof -
  let ?xs = "split_key p" and ?ys = "split_key q"
  consider (a) "prefix ?xs ?ys" | (b) "prefix ?ys ?xs" "\<not> prefix ?xs ?ys"
    | (c) "\<not> prefix ?xs ?ys" "\<not> prefix ?ys ?xs" by blast
  then show ?thesis
  proof cases
    case a
    then show ?thesis
      using prefix_lengths [OF A B a] idents_less_prefix [OF a] idents_less_prefix' [OF a]
      by (simp add: nat_cmp_def first_nonzero_eq idents_less_irrefl)
  next
    case b
    then have ne: "?xs \<noteq> ?ys" by auto
    have "cmp (length p) (length q) = 1"
      using prefix_lengths [OF B A b(1)] ne cmp_flip [of "length p" "length q"] by auto
    then show ?thesis
      using b ne idents_less_prefix [OF b(1)] idents_less_prefix' [OF b(1)]
      by (auto simp add: nat_cmp_def first_nonzero_eq)
  next
    case c
    then have "?xs \<noteq> ?ys" by auto
    then show ?thesis
      using c idents_less_trichotomy [of ?xs ?ys] by (auto simp add: nat_cmp_def first_nonzero_eq)
  qed
qed

lemma prerelease_ident_first:
  assumes "list_all is_prerelease_ident (split_on CHR ''.'' q)"
  shows "\<exists>x xs. split_key q = x # xs \<and> x \<noteq> TStr []"
proof -
  obtain w ws where s: "split_on CHR ''.'' q = w # ws"
    using split_on_not_Nil by (cases "split_on CHR ''.'' q") auto
  with assms have "w \<noteq> []" by (simp add: is_prerelease_ident_def)
  then have "convert w \<noteq> TStr []" by (simp add: convert_def)
  with s show ?thesis by (simp add: split_key_def)
qed

lemma nat_cmp_None_Some:
  assumes "list_all is_prerelease_ident (split_on CHR ''.'' q)"
  shows "nat_cmp None (Some q) \<noteq> 0" and "nat_cmp (Some q) None \<noteq> 0"
proof -
  from prerelease_ident_first [OF assms] obtain x xs where
    s: "split_key q = x # xs" "x \<noteq> TStr []" by blast
  have e: "split_key [] = [TStr []]" by (simp add: split_key_def convert_def all_digits_def)
  have "cmp_prerelease_tag (TStr []) x \<noteq> 0" "cmp_prerelease_tag x (TStr []) \<noteq> 0"
    using s(2) by (simp_all add: cmp_tag_zero) 
  then show "nat_cmp None (Some q) \<noteq> 0" and "nat_cmp (Some q) None \<noteq> 0"
    using s e by (simp_all add: nat_cmp_def)
qed

lemma nat_cmp_None_None: "nat_cmp None None = 0"
  by (simp add: nat_cmp_def split_key_def convert_def all_digits_def cmp_def)

lemma wf_prerelease_nonempty: "wf_prerelease (Some p) \<Longrightarrow> p \<noteq> []"
  by (auto simp: wf_prerelease_def is_prerelease_ident_def)

lemma cmp_triple_eq:
  "cmp_triple (major v, minor v, patch v) (major w, minor w, patch w) =
     (if core_less v w then - 1 else if core_less w v then 1 else 0)"
  by (auto simp: cmp_triple_def cmp_def core_less_def)

lemma core_less_eq: "\<not> core_less v w \<Longrightarrow> \<not> core_less w v \<Longrightarrow> core_eq v w"
  by (auto simp: core_less_def core_eq_def)

lemma core_less_not_eq: "core_less v w \<Longrightarrow> \<not> core_eq v w \<and> \<not> core_eq w v \<and> \<not> core_less w v"
  by (auto simp: core_less_def core_eq_def)

lemma core_eq_sym: "core_eq v w = core_eq w v"
  by (auto simp: core_eq_def)

lemma compare_precedes:
  assumes "wf_prerelease (prerelease v)" "wf_prerelease (prerelease w)"
  shows "VersionInfo_compare v w = (if precedes v w then - 1 else if precedes w v then 1 else 0)"
proof (cases "core_less v w \<or> core_less w v")
  case True
  then show ?thesis
    using core_less_not_eq [of v w] core_less_not_eq [of w v]
    by (auto simp: VersionInfo_compare_def cmp_triple_eq precedes_def)
next
  case False
  then have ce: "core_eq v w" "core_eq w v" using core_less_eq core_eq_sym by blast+
  show ?thesis
  proof (cases "prerelease v")
    case None
    note vn = None
    show ?thesis
    proof (cases "prerelease w")
      case None
      with vn False ce show ?thesis
        by (simp add: VersionInfo_compare_def cmp_triple_eq precedes_def nat_cmp_None_None)
    next
      case (Some q)
      with assms have "list_all is_prerelease_ident (split_on CHR ''.'' q)"
        by (simp add: wf_prerelease_def)
      from nat_cmp_None_Some(1) [OF this] vn Some False ce show ?thesis
        by (simp add: VersionInfo_compare_def cmp_triple_eq precedes_def)
    qed
  next
    case (Some p)
    note vs = Some
    with assms have wp: "list_all is_prerelease_ident (split_on CHR ''.'' p)" "p \<noteq> []"
      using wf_prerelease_nonempty by (simp_all add: wf_prerelease_def)
    show ?thesis
    proof (cases "prerelease w")
      case None
      from nat_cmp_None_Some(2) [OF wp(1)] vs None False ce wp(2) show ?thesis
        by (simp add: VersionInfo_compare_def cmp_triple_eq precedes_def)
    next
      case (Some q)
      with assms have wq: "list_all is_prerelease_ident (split_on CHR ''.'' q)" "q \<noteq> []"
        using wf_prerelease_nonempty by (simp_all add: wf_prerelease_def)
      from nat_cmp_Some [OF wp(1) wq(1)] vs Some False ce wp(2) wq(2) show ?thesis
        by (simp add: VersionInfo_compare_def cmp_triple_eq precedes_def)
    qed
  qed
qed

lemma parse_wf: "VersionInfo_parse s = Inr v \<Longrightarrow> wf_prerelease (prerelease v)"
  by (auto simp: VersionInfo_parse_def wf_prerelease_def Let_def
      split: prod.splits list.splits if_splits option.splits)

lemma semver_compare_eq:
  assumes "VersionInfo_parse a = Inr v" "VersionInfo_parse b = Inr w"
  shows "semver_compare a b = Inr (if precedes v w then - 1 else if precedes w v then 1 else 0)"
  using assms compare_precedes [OF parse_wf [OF assms(1)] parse_wf [OF assms(2)]]
  by (simp add: semver_compare_def)

lemma prerelease_trichotomy:
  "(\<not> prerelease_less q p) = (prerelease_less p q \<or> map_option split_key p = map_option split_key q)"
proof (cases p; cases q)
  fix a b assume "p = Some a" "q = Some b"
  then show ?thesis
    using idents_less_trichotomy [of "split_key a" "split_key b"] by auto
qed auto

lemma valid_versionE: "valid_version s \<Longrightarrow> \<exists>v. VersionInfo_parse s = Inr v"
  by (cases "VersionInfo_parse s") (simp_all add: valid_version_def)

lemma parse_Nil: "VersionInfo_parse [] = Inl ValueError"
  by (simp add: VersionInfo_parse_def cut_at_def)

lemma valid_version_nonempty: "valid_version s \<Longrightarrow> s \<noteq> []"
  using parse_Nil by (auto simp: valid_version_def)

lemma precedes_trichotomy:
  "(\<not> precedes w v) = (precedes v w \<or> same_precedence v w)"
proof (cases "core_less v w \<or> core_less w v")
  case True
  then show ?thesis
    using core_less_not_eq [of v w] core_less_not_eq [of w v]
    by (auto simp: precedes_def same_precedence_def)
next
  case False
  then have "core_eq v w" "core_eq w v" using core_less_eq core_eq_sym by blast+
  with False show ?thesis
    using prerelease_trichotomy [of "prerelease w" "prerelease v"]
    by (simp add: precedes_def same_precedence_def)
qed

lemma precedes_irrefl: "\<not> precedes v v"
  using precedes_trichotomy [of v v] by (auto simp: same_precedence_def core_eq_def)

lemma gate_None:
  assumes "semver_compare p (min_ayon_version d) = Inr a" "max_ayon_version d = None"
  shows "compatibility_gate p d = (if a < 0 then Inl (unsupported_version p) else Inr d)"
  using assms by (simp add: compatibility_gate_def)

lemma gate_Some:
  assumes "semver_compare p (min_ayon_version d) = Inr a" "max_ayon_version d = Some m"
    "m \<noteq> []" "semver_compare p m = Inr b"
  shows "compatibility_gate p d =
           (if a < 0 \<or> b \<ge> 0 then Inl (unsupported_version p) else Inr d)"
  using assms by (simp add: compatibility_gate_def)

section \<open>The compatibility check\<close>

text \<open>
  Claim C1. For every running version \<open>p\<close> and every descriptor \<open>d\<close> whose bounds are
  semantic versions, the compatibility check returns the descriptor if and only if
  \<open>min_ayon_version d \<le> p\<close> in the semantic-version ordering and the upper bound is absent
  or \<open>p\<close> is strictly below it; otherwise it raises \<open>UnsupportedAddonException\<close>. A running
  version equal to the lower bound is accepted, one equal to the upper bound is rejected.
\<close>

theorem compatibility_gate_iff:
  assumes p: "valid_version p"
    and mn: "valid_version (min_ayon_version d)"
    and mx: "\<forall>m. max_ayon_version d = Some m \<longrightarrow> valid_version m"
  shows "((compatibility_gate p d = Inr d) \<longleftrightarrow>
            version_le (min_ayon_version d) p
            \<and> (max_ayon_version d = None \<or> version_less p (the (max_ayon_version d))))
         \<and> (compatibility_gate p d = Inr d \<or> compatibility_gate p d = Inl (unsupported_version p))
         \<and> (min_ayon_version d = p \<longrightarrow> max_ayon_version d = None \<longrightarrow> compatibility_gate p d = Inr d)
         \<and> (max_ayon_version d = Some p \<longrightarrow> compatibility_gate p d = Inl (unsupported_version p))"
proof -
  from p obtain vp where vp: "VersionInfo_parse p = Inr vp" using valid_versionE by blast
  from mn obtain vn where vn: "VersionInfo_parse (min_ayon_version d) = Inr vn"
    using valid_versionE by blast
  define a :: int where "a = (if precedes vp vn then - 1 else if precedes vn vp then 1 else 0)"
  have lo: "semver_compare p (min_ayon_version d) = Inr a"
    unfolding a_def using semver_compare_eq [OF vp vn] .
  have le: "version_le (min_ayon_version d) p = (\<not> precedes vp vn)"
    using vp vn precedes_trichotomy [of vp vn] by (simp add: version_le_def)
  have a: "(a < 0) = precedes vp vn" by (simp add: a_def)
  have same: "min_ayon_version d = p \<Longrightarrow> \<not> precedes vp vn"
    using vp vn precedes_irrefl [of vp] by auto
  show ?thesis
  proof (cases "max_ayon_version d")
    case None
    have g: "compatibility_gate p d = (if precedes vp vn then Inl (unsupported_version p) else Inr d)"
      using gate_None [OF lo None] a by simp
    show ?thesis using None le same by (simp add: g)
  next
    case (Some m)
    with mx have vm': "valid_version m" by simp
    then obtain vm where vm: "VersionInfo_parse m = Inr vm" using valid_versionE by blast
    define b :: int where "b = (if precedes vp vm then - 1 else if precedes vm vp then 1 else 0)"
    have hi: "semver_compare p m = Inr b"
      unfolding b_def using semver_compare_eq [OF vp vm] .
    have lt: "version_less p m = precedes vp vm"
      using vp vm by (simp add: version_less_def)
    have b: "(b \<ge> 0) = (\<not> precedes vp vm)" by (simp add: b_def)
    have ne: "m \<noteq> []" using vm' valid_version_nonempty by blast
    have g: "compatibility_gate p d =
               (if precedes vp vn \<or> \<not> precedes vp vm then Inl (unsupported_version p) else Inr d)"
      using gate_Some [OF lo Some ne hi] a b by simp
    have top: "m = p \<Longrightarrow> \<not> precedes vp vm"
      using vp vm precedes_irrefl [of vp] by auto
    show ?thesis using Some le lt top by (auto simp add: g)
  qed
qed

theorem compatibility_gate_iff_witness:
  "valid_version ''1.1.0'' \<and> valid_version ''1.0.0'' \<and> valid_version ''1.2.0''
   \<and> compatibility_gate ''1.1.0''
        \<lparr>name = ''tvpaint'', version = ''1.0.0'', min_ayon_version = ''1.0.0'',
         max_ayon_version = Some ''1.2.0'', is_rez = False\<rparr>
       = Inr \<lparr>name = ''tvpaint'', version = ''1.0.0'', min_ayon_version = ''1.0.0'',
         max_ayon_version = Some ''1.2.0'', is_rez = False\<rparr>
   \<and> version_le ''1.0.0'' ''1.1.0'' \<and> version_less ''1.1.0'' ''1.2.0''"
proof -
  let ?d = "\<lparr>name = ''tvpaint'', version = ''1.0.0'', min_ayon_version = ''1.0.0'',
         max_ayon_version = Some ''1.2.0'', is_rez = False\<rparr>"
  have v: "valid_version ''1.1.0''" "valid_version ''1.0.0''" "valid_version ''1.2.0''"
    by code_simp+
  have le: "version_le ''1.0.0'' ''1.1.0''" and lt: "version_less ''1.1.0'' ''1.2.0''"
    by code_simp+
  have "compatibility_gate ''1.1.0'' ?d = Inr ?d"
    using compatibility_gate_iff [of "''1.1.0''" ?d] v le lt by simp
  with v le lt show ?thesis by simp
qed

section \<open>The manifest parsers\<close>

lemmas example_defs = example_env_def example_world_def example_read_zip_def
  example_json_loads_def example_yaml_safe_load_def manifest_tvpaint_def manifest_legacy_def
  manifest_empty_name_def package_maya_def zip_tvpaint_def zip_legacy_def
  zip_legacy_no_payload_def zip_both_def zip_empty_name_def zip_maya_def zip_no_manifest_def
  file_member_def

lemmas parser_defs = get_addon_zip_info_def open_zip_def parse_entry_def zip_read_def
  namelist_def PARSERS_def bind_err_def get_addon_info_from_manifest_def
  get_addon_info_from_package_yaml_def dict_get_def make_AddonZipInfo_def

lemmas fs_defs = lookup_def isdir_def isfile_def exists_path_def fs_put_def fs_del_def
  fs_del_tree_def parent_error_def

lemma example_versions:
  "semver_compare ''1.1.0'' ''1.0.0'' = Inr 1" "semver_compare ''1.1.0'' ''1.2.0'' = Inr (- 1)"
  "semver_compare ''1.1.0'' ''1.0.3'' = Inr 1"
  by code_simp+

lemma example_gate_legacy:
  "compatibility_gate ''1.1.0''
     \<lparr>name = n, version = v, min_ayon_version = ''1.0.0'', max_ayon_version = Some ''1.2.0'',
      is_rez = r\<rparr>
   = Inr \<lparr>name = n, version = v, min_ayon_version = ''1.0.0'', max_ayon_version = Some ''1.2.0'',
      is_rez = r\<rparr>"
  by (simp add: compatibility_gate_def example_versions)

lemma example_gate_rez:
  "compatibility_gate ''1.1.0''
     \<lparr>name = n, version = v, min_ayon_version = ''1.0.3'', max_ayon_version = None, is_rez = r\<rparr>
   = Inr \<lparr>name = n, version = v, min_ayon_version = ''1.0.3'', max_ayon_version = None, is_rez = r\<rparr>"
  by (simp add: compatibility_gate_def example_versions)

lemma find_append_None: "find P xs = None \<Longrightarrow> find P (xs @ ys) = find P ys"
  by (induction xs) (auto split: if_splits)

lemma zip_read_last:
  assumes "z = pre @ m # post" and "filename m \<notin> filename ` set post"
  shows "zip_read z (filename m) = Inr (content m)"
proof -
  have "\<forall>x \<in> set post. filename x \<noteq> filename m"
    using assms(2) by (metis image_eqI)
  then have "find (\<lambda>x. filename x = filename m) (rev post) = None"
    by (simp add: find_None_iff)
  then have "find (\<lambda>x. filename x = filename m) (rev z) = Some m"
    using assms(1) by (simp add: find_append_None)
  then show ?thesis by (simp add: zip_read_def)
qed

text \<open>
  Claim C2. Let \<open>m\<close> be the entry the archive keeps for its name (the last member of that
  name) and \<open>text\<close> its decoded content. If \<open>m\<close> is \<^verbatim>\<open>manifest.json\<close>, the descriptor is
  what \<^verbatim>\<open>get_addon_info_from_manifest\<close> makes of \<open>text\<close>, whatever else the archive holds, a
  YAML or Python package file included. \<^verbatim>\<open>package.yaml\<close> is parsed (as YAML) only when there is
  no \<^verbatim>\<open>manifest.json\<close>, \<^verbatim>\<open>package.yml\<close> only when there is neither, and \<^verbatim>\<open>package.py\<close> only
  when there is none of the three. In each case the result is a function of that one entry's
  text alone.
\<close>

theorem manifest_precedence:
  assumes oz: "open_zip E fs p = Inr z"
    and sel: "z = pre @ m # post" "filename m \<notin> filename ` set post"
    and dec: "decode_utf8 E (content m) = Some text"
  shows "(filename m = ''manifest.json'' \<longrightarrow>
            get_addon_zip_info E fs p =
              (case get_addon_info_from_manifest E text of
                 Inl e \<Rightarrow> Inl e
               | Inr info \<Rightarrow> compatibility_gate (ayon_version E) info))
         \<and> (filename m = ''package.yaml'' \<and> ''manifest.json'' \<notin> filename ` set z \<longrightarrow>
            get_addon_zip_info E fs p =
              (case get_addon_info_from_package_yaml E text of
                 Inl e \<Rightarrow> Inl e
               | Inr info \<Rightarrow> compatibility_gate (ayon_version E) info))
         \<and> (filename m = ''package.yml'' \<and> ''manifest.json'' \<notin> filename ` set z
              \<and> ''package.yaml'' \<notin> filename ` set z \<longrightarrow>
            get_addon_zip_info E fs p =
              (case get_addon_info_from_package_yaml E text of
                 Inl e \<Rightarrow> Inl e
               | Inr info \<Rightarrow> compatibility_gate (ayon_version E) info))
         \<and> (filename m = ''package.py'' \<and> ''manifest.json'' \<notin> filename ` set z
              \<and> ''package.yaml'' \<notin> filename ` set z \<and> ''package.yml'' \<notin> filename ` set z \<longrightarrow>
            get_addon_zip_info E fs p =
              (case get_addon_info_from_package_py text of
                 Inl e \<Rightarrow> Inl e
               | Inr info \<Rightarrow> compatibility_gate (ayon_version E) info))"
proof -
  have rd: "zip_read z (filename m) = Inr (content m)"
    using zip_read_last [OF sel] .
  have inz: "filename m \<in> filename ` set z" using sel(1) by simp
  have pe: "parse_entry E z (filename m) parser = parser text" for parser
    using rd dec by (simp add: parse_entry_def bind_err_def)
  have unroll: "get_addon_zip_info E fs p =
      (case (if ''manifest.json'' \<in> filename ` set z
              then parse_entry E z ''manifest.json'' (get_addon_info_from_manifest E)
              else if ''package.yaml'' \<in> filename ` set z
              then parse_entry E z ''package.yaml'' (get_addon_info_from_package_yaml E)
              else if ''package.yml'' \<in> filename ` set z
              then parse_entry E z ''package.yml'' (get_addon_info_from_package_yaml E)
              else if ''package.py'' \<in> filename ` set z
              then parse_entry E z ''package.py'' get_addon_info_from_package_py
              else Inl (UnsupportedAddonException ''Unsupported addon format'')) of
         Inl e \<Rightarrow> Inl e
       | Inr info \<Rightarrow> compatibility_gate (ayon_version E) info)"
    using oz
    by (simp add: get_addon_zip_info_def PARSERS_def bind_err_def namelist_def split: sum.splits)
  show ?thesis
  proof (intro conjI impI)
    assume n: "filename m = ''manifest.json''"
    show "get_addon_zip_info E fs p =
              (case get_addon_info_from_manifest E text of
                 Inl e \<Rightarrow> Inl e
               | Inr info \<Rightarrow> compatibility_gate (ayon_version E) info)"
      using inz pe [of "get_addon_info_from_manifest E"] unfolding unroll n by simp
  next
    assume n: "filename m = ''package.yaml'' \<and> ''manifest.json'' \<notin> filename ` set z"
    then have n1: "filename m = ''package.yaml''" by simp
    show "get_addon_zip_info E fs p =
              (case get_addon_info_from_package_yaml E text of
                 Inl e \<Rightarrow> Inl e
               | Inr info \<Rightarrow> compatibility_gate (ayon_version E) info)"
      using inz n pe [of "get_addon_info_from_package_yaml E"] unfolding unroll n1 by simp
  next
    assume n: "filename m = ''package.yml'' \<and> ''manifest.json'' \<notin> filename ` set z
              \<and> ''package.yaml'' \<notin> filename ` set z"
    then have n1: "filename m = ''package.yml''" by simp
    show "get_addon_zip_info E fs p =
              (case get_addon_info_from_package_yaml E text of
                 Inl e \<Rightarrow> Inl e
               | Inr info \<Rightarrow> compatibility_gate (ayon_version E) info)"
      using inz n pe [of "get_addon_info_from_package_yaml E"] unfolding unroll n1 by simp
  next
    assume n: "filename m = ''package.py'' \<and> ''manifest.json'' \<notin> filename ` set z
              \<and> ''package.yaml'' \<notin> filename ` set z \<and> ''package.yml'' \<notin> filename ` set z"
    then have n1: "filename m = ''package.py''" by simp
    show "get_addon_zip_info E fs p =
              (case get_addon_info_from_package_py text of
                 Inl e \<Rightarrow> Inl e
               | Inr info \<Rightarrow> compatibility_gate (ayon_version E) info)"
      using inz n pe [of "get_addon_info_from_package_py"] unfolding unroll n1 by simp
  qed
qed

theorem manifest_precedence_witness:
  "open_zip example_env (files (example_world ''PK:both'')) [''upload.zip''] = Inr zip_both
   \<and> zip_both = [file_member ''package.yaml'' package_maya]
                 @ file_member ''manifest.json'' manifest_legacy
                 # [file_member ''addon/__init__.py'' ''print(3)'']
   \<and> get_addon_info_from_manifest example_env manifest_legacy = Inr tvpaint_info
   \<and> get_addon_info_from_package_yaml example_env package_maya = Inr maya_info
   \<and> get_addon_zip_info example_env (files (example_world ''PK:both'')) [''upload.zip'']
       = Inr tvpaint_info"
proof -
  let ?m = "file_member ''manifest.json'' manifest_legacy"
  have h: "open_zip example_env (files (example_world ''PK:both'')) [''upload.zip''] = Inr zip_both"
    by (simp add: open_zip_def example_env_def example_world_def example_read_zip_def fs_defs)
  have s: "zip_both = [file_member ''package.yaml'' package_maya] @ ?m
                 # [file_member ''addon/__init__.py'' ''print(3)'']"
    by (simp add: zip_both_def)
  have l: "filename ?m \<notin> filename ` set [file_member ''addon/__init__.py'' ''print(3)'']"
    by (simp add: file_member_def)
  have d: "decode_utf8 example_env (content ?m) = Some manifest_legacy"
    by (simp add: example_env_def file_member_def)
  have n: "filename ?m = ''manifest.json''" by (simp add: file_member_def)
  have j: "get_addon_info_from_manifest example_env manifest_legacy = Inr tvpaint_info"
    by (simp add: parser_defs example_defs tvpaint_info_def)
  have y: "get_addon_info_from_package_yaml example_env package_maya = Inr maya_info"
    by (simp add: parser_defs example_defs maya_info_def)
  have v: "ayon_version example_env = ''1.1.0''" by (simp add: example_env_def)
  have g: "compatibility_gate ''1.1.0'' tvpaint_info = Inr tvpaint_info"
    by (simp add: tvpaint_info_def example_gate_legacy)
  from manifest_precedence [OF h s l d] n j v g
  have "get_addon_zip_info example_env (files (example_world ''PK:both'')) [''upload.zip'']
          = Inr tvpaint_info" by simp
  with h s j y show ?thesis by simp
qed

text \<open>
  Claim C3, at the manifest of its example. The JSON parser tests the keys \<^verbatim>\<open>addon_name\<close> and
  \<^verbatim>\<open>addon_version\<close> and then reads \<^verbatim>\<open>name\<close> and \<^verbatim>\<open>version\<close>: the manifest
  \<^verbatim>\<open>{"name":"tvpaint","version":"1.0.0"}\<close> is rejected with \<open>UnsupportedAddonException\<close>
  although both required fields are present.
\<close>

theorem manifest_name_version_rejected:
  "get_addon_info_from_manifest example_env manifest_tvpaint
     = Inl (UnsupportedAddonException ''Addon name or version not found in manifest'')
   \<and> get_addon_zip_info example_env (files (example_world ''PK:tvpaint'')) [''upload.zip'']
     = Inl (UnsupportedAddonException ''Addon name or version not found in manifest'')"
  by (simp add: parser_defs example_defs fs_defs)

text \<open>
  Claim C9, at a manifest that violates it. With \<^verbatim>\<open>addon_name\<close> and \<^verbatim>\<open>addon_version\<close> set and
  \<^verbatim>\<open>name\<close> and \<^verbatim>\<open>version\<close> empty, the JSON parser returns a descriptor whose name and version
  are empty, and \<^verbatim>\<open>get_addon_zip_info\<close> returns it.
\<close>

theorem manifest_empty_name_accepted:
  "get_addon_info_from_manifest example_env manifest_empty_name
     = Inr \<lparr>name = [], version = [], min_ayon_version = ''1.0.0'',
            max_ayon_version = Some ''1.2.0'', is_rez = False\<rparr>
   \<and> get_addon_zip_info example_env (files (example_world ''PK:empty-name'')) [''upload.zip'']
     = Inr \<lparr>name = [], version = [], min_ayon_version = ''1.0.0'',
            max_ayon_version = Some ''1.2.0'', is_rez = False\<rparr>"
  by (simp add: parser_defs example_defs fs_defs example_gate_legacy)

section \<open>Worked examples of the jobs\<close>

lemmas unpack_defs = unpack_addon_sync_def unpack_body_def target_dir_of_def os_makedirs_def
  os_mkdir_def resolve_def os_path_join_def Let_def lift_fs_def and_then_def zip_extract_def
  arc_parts_def is_dir_member_def write_file_def os_chmod_def shutil_rmtree_def shutil_move_def
  os_rename_def copytree_def copy2_def os_remove_def walk_files_def paths_def move_tree_def
  has_children_def open_zip_def bind_err_def

lemmas job_defs = install_addon_from_url_def install_body_def unpack_addon_def update_event_def
  status_update_def os_create_def append_file_def status_updates_def resolve_def
  write_file_def os_remove_def Let_def

lemma unpack_no_payload:
  "unpack_addon_sync example_env
     \<lparr>files = [([''addons''], Dir 493), ([''upload.zip''], File ''PK:legacy-no-payload'' 420)],
      tmp_names = [''tmp0'', ''tmp1'', ''tmp2''], events = evs\<rparr> [''upload.zip''] tvpaint_info
   = (Inl FileNotFoundError,
      \<lparr>files = [([''addons''], Dir 493), ([''upload.zip''], File ''PK:legacy-no-payload'' 420)],
      tmp_names = [''tmp1'', ''tmp2''], events = evs\<rparr>)"
  by (simp add: unpack_defs fs_defs example_defs tvpaint_info_def)

text \<open>
  Claim C6, at an input that violates it. The archive has a JSON manifest and no \<^verbatim>\<open>addon\<close>
  directory, so the unpacking raises; \<^verbatim>\<open>unpack_addon\<close> reports \<^verbatim>\<open>failed\<close> and then goes on to
  report \<^verbatim>\<open>finished\<close> for the same job.
\<close>

theorem unpack_addon_finished_after_failed:
  "map ev_status
     (events (snd (unpack_addon example_env (example_world ''PK:legacy-no-payload'') ''job''
                     [''upload.zip''] tvpaint_info)))
   = [Some ''in_progress'', Some ''failed'', Some ''finished'']"
  by (simp add: unpack_addon_def update_event_def status_update_def example_world_def
      unpack_no_payload os_remove_def fs_defs)

text \<open>
  Claim C5, at an input that violates it. The downloaded archive has no manifest:
  \<^verbatim>\<open>install_addon_from_url\<close> raises \<open>UnsupportedAddonException\<close> to its caller, and the only
  updates sent are the first \<^verbatim>\<open>in_progress\<close> and a download progress; no \<^verbatim>\<open>failed\<close> is
  reported.
\<close>

theorem install_from_url_raises:
  "install_addon_from_url example_env (example_world ''PK:legacy'') ''job'' ''http://host/a.zip''
     (Responded (response_ok ''PK:no-manifest''))
   = (Inl (UnsupportedAddonException ''Unsupported addon format''),
      \<lparr>files = files (example_world ''PK:legacy''),
       tmp_names = [''tmp1'', ''tmp2''],
       events =
         [status_update ''job'' ''Downloading addon from URL http://host/a.zip'' ''in_progress'',
          \<lparr>ev_id = ''job'', ev_description = None, ev_status = None,
           ev_progress = Some (Downloaded 14 14), ev_summary = None, ev_store = False\<rparr>]\<rparr>)"
  by (simp add: job_defs response_ok_def parser_defs fs_defs example_defs)

text \<open>
  Claim C7 fails as stated: a response with status 404 is not treated as a failed fetch. Its
  body is stored in the scratch file and handed to \<^verbatim>\<open>get_addon_zip_info\<close>, whose
  \<^verbatim>\<open>BadZipFile\<close> is the error raised.
\<close>

theorem http_404_counterexample:
  "status_code response_404 = 404
   \<and> fst (install_addon_from_url example_env (example_world ''PK:legacy'') ''job''
            ''http://host/a.zip'' (Responded response_404))
       = Inl BadZipFile
   \<and> fst (install_addon_from_url example_env (example_world ''PK:legacy'') ''job''
            ''http://host/a.zip'' (Responded response_404))
       \<noteq> Inl TransportError"
  by (simp add: job_defs response_404_def parser_defs fs_defs example_defs)

section \<open>Lemmas about the file system\<close>

lemma map_of_filter_key:
  "map_of (filter (\<lambda>e. P (fst e)) fs) q = (if P q then map_of fs q else None)"
  by (induction fs) auto

lemma lookup_fs_del: "lookup (fs_del fs p) q = (if q = p then None else lookup fs q)"
  unfolding lookup_def fs_del_def using map_of_filter_key [of "\<lambda>k. k \<noteq> p" fs q] by simp

lemma lookup_fs_put: "lookup (fs_put fs p n) q = (if q = p then Some n else lookup fs q)"
proof -
  have "map_of (fs_del fs p @ [(p, n)]) q = (if q = p then Some n else lookup fs q)"
    using lookup_fs_del [of fs p q] by (auto simp: map_add_def lookup_def split: option.splits)
  then show ?thesis by (simp add: fs_put_def lookup_def)
qed

lemma lookup_fs_del_tree:
  "lookup (fs_del_tree fs p) q = (if prefix p q then None else lookup fs q)"
  unfolding lookup_def fs_del_tree_def using map_of_filter_key [of "\<lambda>k. \<not> prefix p k" fs q] by simp

lemma fs_del_absent: "lookup fs p = None \<Longrightarrow> fs_del fs p = fs"
proof -
  assume "lookup fs p = None"
  then have "p \<notin> fst ` set fs" by (simp add: lookup_def map_of_eq_None_iff)
  then have "\<forall>e \<in> set fs. fst e \<noteq> p" by auto
  then show ?thesis by (simp add: fs_del_def)
qed

lemma fs_del_idem: "fs_del (fs_del fs p) p = fs_del fs p"
  by (simp add: fs_del_def)

lemma fs_del_put: "fs_del (fs_put fs p n) p = fs_del fs p"
  by (simp add: fs_put_def fs_del_def)

lemma fs_del_append_file: "fs_del (append_file fs p b) p = fs_del fs p"
  by (auto simp: append_file_def fs_del_put split: option.splits node.splits)

lemma os_create_Inr:
  "os_create fs p m = Inr fs' \<Longrightarrow>
     p \<noteq> [] \<and> lookup fs p = None \<and> fs' = fs_put fs p (File [] m) \<and> parent_error fs p = None"
  by (auto simp: os_create_def exists_path_def split: if_splits option.splits)

lemma mkstemp_Inr:
  "mkstemp fs d ns = (Inr (p, fs'), ns') \<Longrightarrow>
     p \<noteq> [] \<and> lookup fs p = None \<and> fs' = fs_put fs p (File [] 384) \<and> parent_error fs p = None"
proof (induction ns)
  case Nil
  then show ?case by simp
next
  case (Cons n ns)
  show ?case
  proof (cases "os_create fs (d @ [n]) 384")
    case (Inl e)
    with Cons show ?thesis by (auto split: if_splits)
  next
    case (Inr fs2)
    with Cons.prems have "p = d @ [n]" "fs' = fs2" by auto
    with os_create_Inr [OF Inr] show ?thesis by simp
  qed
qed

lemma scratch_file_Some:
  "scratch_file E w = Some p \<Longrightarrow>
     \<exists>fs' ns'. mkstemp (files w) (resolve (cwd E) (addons_dir E)) (tmp_names w) = (Inr (p, fs'), ns')"
  by (cases "mkstemp (files w) (resolve (cwd E) (addons_dir E)) (tmp_names w)")
     (auto simp: scratch_file_def split: sum.splits)

lemma parent_error_put:
  "p \<noteq> [] \<Longrightarrow> parent_error (fs_put fs p n) p = parent_error fs p"
proof -
  assume "p \<noteq> []"
  then have "butlast p \<noteq> p" by (metis append_butlast_last_id append_self_conv not_Cons_self2)
  then show ?thesis
    by (simp add: parent_error_def exists_path_def isdir_def lookup_fs_put)
qed

text \<open>The scratch file during the download.\<close>

lemma write_chunks_props:
  assumes "lookup (files w) p = Some (File c m)"
  shows "lookup (files (write_chunks ev n p i w cs)) p = Some (File (c @ concat (map fst cs)) m)
         \<and> fs_del (files (write_chunks ev n p i w cs)) p = fs_del (files w) p
         \<and> tmp_names (write_chunks ev n p i w cs) = tmp_names w
         \<and> status_updates (write_chunks ev n p i w cs) = status_updates w"
  using assms
proof (induction cs arbitrary: w c i)
  case Nil
  then show ?case by simp
next
  case (Cons x cs)
  obtain chunk tick where x: "x = (chunk, tick)" by (cases x)
  define w2 where "w2 = (let w1 = w\<lparr>files := append_file (files w) p chunk\<rparr> in
      if n \<noteq> 0 \<and> tick
      then update_event w1 \<lparr>ev_id = ev, ev_description = None, ev_status = None,
             ev_progress = Some (Downloaded (i + length chunk) n), ev_summary = None,
             ev_store = False\<rparr>
      else w1)"
  have f: "files w2 = append_file (files w) p chunk"
    by (simp add: w2_def update_event_def Let_def)
  have l: "lookup (files w2) p = Some (File (c @ chunk) m)"
    using Cons.prems by (simp add: f append_file_def lookup_fs_put)
  have d: "fs_del (files w2) p = fs_del (files w) p" by (simp add: f fs_del_append_file)
  have t: "tmp_names w2 = tmp_names w" by (simp add: w2_def update_event_def Let_def)
  have s: "status_updates w2 = status_updates w"
    by (simp add: w2_def update_event_def Let_def status_updates_def)
  have step: "write_chunks ev n p i w (x # cs) = write_chunks ev n p (i + length chunk) w2 cs"
    by (simp add: x w2_def Let_def)
  have c: "concat (map fst (x # cs)) = chunk @ concat (map fst cs)" by (simp add: x)
  from Cons.IH [OF l, of "i + length chunk"] show ?case
    unfolding step c by (simp add: d t s)
qed

section \<open>The job that installs from a URL\<close>

lemma write_file_existing:
  "lookup fs p = Some (File c m) \<Longrightarrow> p \<noteq> [] \<Longrightarrow> parent_error fs p = None
   \<Longrightarrow> write_file md fs p b = Inr (fs_put fs p (File b m))"
  by (simp add: write_file_def isdir_def)

lemma os_remove_file:
  "lookup fs p = Some (File c m) \<Longrightarrow> p \<noteq> [] \<Longrightarrow> os_remove fs p = Inr (fs_del fs p)"
  by (simp add: os_remove_def isdir_def exists_path_def)

lemma install_unfold:
  assumes "mkstemp (files w) (resolve (cwd E) (addons_dir E)) (tmp_names w) = (Inr (p, fs2), ns)"
  shows "install_addon_from_url E w ev url f =
     (let w1 = update_event w (status_update ev (''Downloading addon from URL '' @ url) ''in_progress'');
          r = install_body E (w1\<lparr>files := fs2, tmp_names := ns\<rparr>) ev url f p
      in case os_remove (files (snd r)) p of
           Inl e \<Rightarrow> (Inl e, snd r)
         | Inr fs4 \<Rightarrow>
             (case fst r of
                Inl e \<Rightarrow> (Inl e, (snd r)\<lparr>files := fs4\<rparr>)
              | Inr zip_info \<Rightarrow>
                  (Inr (),
                   update_event ((snd r)\<lparr>files := fs4\<rparr>)
                     (status_update ev
                        (''Addon '' @ name zip_info @ '' '' @ version zip_info @ '' installed'')
                        ''finished''))))"
  using assms by (simp add: install_addon_from_url_def update_event_def Let_def)

text \<open>The state when the download has ended, for a response whose length header is read.\<close>

lemma download_state:
  assumes l: "lookup (files w) p = Some (File [] m)" and p: "p \<noteq> []"
    and pe: "parent_error (files w) p = None" and cl: "content_length r \<noteq> BadLength"
  obtains w1 where
    "install_body E w ev url (Responded r) p =
       (if stream_error r then (Inl TransportError, w1)
        else case get_addon_zip_info E (files w1) p of
               Inl e \<Rightarrow> (Inl e, w1)
             | Inr zip_info \<Rightarrow>
                 (let w2 = update_event w1
                             \<lparr>ev_id = ev,
                              ev_description =
                                Some (''Installing addon '' @ name zip_info @ '' '' @ version zip_info),
                              ev_status = Some ''in_progress'', ev_progress = Some (Percent 50),
                              ev_summary = Some (zip_info, url), ev_store = True\<rparr>;
                      r3 = unpack_addon_sync E w2 p zip_info
                  in (case fst r3 of Inl e \<Rightarrow> (Inl e, snd r3) | Inr u \<Rightarrow> (Inr zip_info, snd r3))))"
    "lookup (files w1) p = Some (File (concat (map fst (chunks r))) m)"
    "fs_del (files w1) p = fs_del (files w) p"
    "tmp_names w1 = tmp_names w"
    "status_updates w1 = status_updates w"
proof -
  define n where "n = (case content_length r of Length k \<Rightarrow> k | _ \<Rightarrow> 0)"
  define w0 where "w0 = w\<lparr>files := fs_put (files w) p (File [] m)\<rparr>"
  define w1 where "w1 = write_chunks ev n p 0 w0 (chunks r)"
  have wf: "write_file (file_mode E) (files w) p [] = Inr (fs_put (files w) p (File [] m))"
    using write_file_existing [OF l p pe] .
  have l0: "lookup (files w0) p = Some (File [] m)" by (simp add: w0_def lookup_fs_put)
  note props = write_chunks_props [OF l0, of ev n 0 "chunks r"]
  have a: "lookup (files w1) p = Some (File (concat (map fst (chunks r))) m)"
    using props by (simp add: w1_def)
  have b: "fs_del (files w1) p = fs_del (files w) p"
    using props by (simp add: w1_def w0_def fs_del_put)
  have c: "tmp_names w1 = tmp_names w" using props by (simp add: w1_def w0_def)
  have d: "status_updates w1 = status_updates w"
    using props by (simp add: w1_def w0_def status_updates_def)
  have e: "install_body E w ev url (Responded r) p =
       (if stream_error r then (Inl TransportError, w1)
        else case get_addon_zip_info E (files w1) p of
               Inl e \<Rightarrow> (Inl e, w1)
             | Inr zip_info \<Rightarrow>
                 (let w2 = update_event w1
                             \<lparr>ev_id = ev,
                              ev_description =
                                Some (''Installing addon '' @ name zip_info @ '' '' @ version zip_info),
                              ev_status = Some ''in_progress'', ev_progress = Some (Percent 50),
                              ev_summary = Some (zip_info, url), ev_store = True\<rparr>;
                      r3 = unpack_addon_sync E w2 p zip_info
                  in (case fst r3 of Inl e \<Rightarrow> (Inl e, snd r3) | Inr u \<Rightarrow> (Inr zip_info, snd r3))))"
    using cl wf unfolding w1_def w0_def n_def install_body_def Let_def
    by (cases "content_length r") simp_all
  from that [OF e a b c d] show thesis .
qed

text \<open>The world in which the body of the \<^verbatim>\<open>with\<close> block starts.\<close>

lemma scratch_start:
  assumes "scratch_file E w = Some p"
  obtains fs2 ns where
    "mkstemp (files w) (resolve (cwd E) (addons_dir E)) (tmp_names w) = (Inr (p, fs2), ns)"
    "p \<noteq> []" "lookup (files w) p = None" "fs2 = fs_put (files w) p (File [] 384)"
    "parent_error fs2 p = None" "lookup fs2 p = Some (File [] 384)" "fs_del fs2 p = files w"
proof -
  from scratch_file_Some [OF assms] obtain fs2 ns where
    m: "mkstemp (files w) (resolve (cwd E) (addons_dir E)) (tmp_names w) = (Inr (p, fs2), ns)"
    by blast
  from mkstemp_Inr [OF m] have k: "p \<noteq> []" "lookup (files w) p = None"
    "fs2 = fs_put (files w) p (File [] 384)" "parent_error (files w) p = None" by simp_all
  have "parent_error fs2 p = None" using k parent_error_put by simp
  moreover have "lookup fs2 p = Some (File [] 384)" using k by (simp add: lookup_fs_put)
  moreover have "fs_del fs2 p = files w" using k by (simp add: fs_del_put fs_del_absent)
  ultimately show thesis using that m k by blast
qed

lemma status_updates_update_event:
  "status_updates (update_event w u)
     = status_updates w @ (if ev_status u \<noteq> None then [u] else [])"
  by (simp add: status_updates_def update_event_def)

lemma status_updates_files [simp]: "status_updates (w\<lparr>files := fs\<rparr>) = status_updates w"
  by (simp add: status_updates_def)

lemma status_updates_tmp_names [simp]: "status_updates (w\<lparr>tmp_names := ns\<rparr>) = status_updates w"
  by (simp add: status_updates_def)

lemma download_broken:
  assumes l: "lookup (files w) p = Some (File [] m)" and p: "p \<noteq> []"
    and pe: "parent_error (files w) p = None" and cl: "content_length r \<noteq> BadLength"
    and se: "stream_error r"
  shows "\<exists>w1 c. install_body E w ev url (Responded r) p = (Inl TransportError, w1)
           \<and> lookup (files w1) p = Some (File c m)
           \<and> fs_del (files w1) p = fs_del (files w) p
           \<and> status_updates w1 = status_updates w"
  by (rule download_state [OF l p pe cl, of E ev url]) (simp add: se)

lemma download_rejected:
  assumes l: "lookup (files w) p = Some (File [] m)" and p: "p \<noteq> []"
    and pe: "parent_error (files w) p = None" and cl: "content_length r \<noteq> BadLength"
    and se: "\<not> stream_error r"
    and rz: "read_zip E (concat (map fst (chunks r))) = Some z"
    and pf: "bind_err (parse_first E z (PARSERS E)) (\<lambda>zip_info.
               case zip_info of
                 None \<Rightarrow> Inl (UnsupportedAddonException ''Unsupported addon format'')
               | Some info \<Rightarrow> compatibility_gate (ayon_version E) info) = Inl e"
  shows "\<exists>w1 c. install_body E w ev url (Responded r) p = (Inl e, w1)
           \<and> lookup (files w1) p = Some (File c m)
           \<and> fs_del (files w1) p = fs_del (files w) p
           \<and> status_updates w1 = status_updates w"
proof (rule download_state [OF l p pe cl, of E ev url])
  fix w1
  assume b: "lookup (files w1) p = Some (File (concat (map fst (chunks r))) m)"
    and c: "fs_del (files w1) p = fs_del (files w) p" "status_updates w1 = status_updates w"
  assume a: "install_body E w ev url (Responded r) p =
       (if stream_error r then (Inl TransportError, w1)
        else case get_addon_zip_info E (files w1) p of
               Inl e \<Rightarrow> (Inl e, w1)
             | Inr zip_info \<Rightarrow>
                 (let w2 = update_event w1
                             \<lparr>ev_id = ev,
                              ev_description =
                                Some (''Installing addon '' @ name zip_info @ '' '' @ version zip_info),
                              ev_status = Some ''in_progress'', ev_progress = Some (Percent 50),
                              ev_summary = Some (zip_info, url), ev_store = True\<rparr>;
                      r3 = unpack_addon_sync E w2 p zip_info
                  in (case fst r3 of Inl e \<Rightarrow> (Inl e, snd r3) | Inr u \<Rightarrow> (Inr zip_info, snd r3))))"
  have "open_zip E (files w1) p = Inr z"
    using b p rz by (simp add: open_zip_def isdir_def)
  then have "get_addon_zip_info E (files w1) p = Inl e"
    using pf by (simp add: get_addon_zip_info_def bind_err_def)
  with a se have "install_body E w ev url (Responded r) p = (Inl e, w1)" by simp
  with b c show ?thesis by blast
qed

text \<open>
  Claim C8. When the downloaded archive has a manifest whose descriptor the compatibility check
  rejects, \<^verbatim>\<open>install_addon_from_url\<close> raises the \<open>UnsupportedAddonException\<close> of the check and
  the file system is afterwards exactly what it was before the call: nothing is created under
  the install root.
\<close>

theorem gate_rejection_leaves_root_unchanged:
  assumes sf: "scratch_file E w = Some p"
    and cl: "content_length r \<noteq> BadLength" and se: "\<not> stream_error r"
    and rz: "read_zip E (concat (map fst (chunks r))) = Some z"
    and pf: "parse_first E z (PARSERS E) = Inr (Some info)"
    and gate: "compatibility_gate (ayon_version E) info = Inl (unsupported_version (ayon_version E))"
  shows "fst (install_addon_from_url E w ev url (Responded r))
           = Inl (unsupported_version (ayon_version E))
         \<and> files (snd (install_addon_from_url E w ev url (Responded r))) = files w"
proof -
  from scratch_start [OF sf] obtain fs2 ns where
    m: "mkstemp (files w) (resolve (cwd E) (addons_dir E)) (tmp_names w) = (Inr (p, fs2), ns)"
    and p: "p \<noteq> []" and pe: "parent_error fs2 p = None"
    and l2: "lookup fs2 p = Some (File [] 384)" and d2: "fs_del fs2 p = files w" by blast
  define w2 where
    "w2 = (update_event w (status_update ev (''Downloading addon from URL '' @ url) ''in_progress''))
            \<lparr>files := fs2, tmp_names := ns\<rparr>"
  have l: "lookup (files w2) p = Some (File [] 384)"
    and pe': "parent_error (files w2) p = None" and f2: "files w2 = fs2"
    using l2 pe by (simp_all add: w2_def)
  have pf': "bind_err (parse_first E z (PARSERS E)) (\<lambda>zip_info.
               case zip_info of
                 None \<Rightarrow> Inl (UnsupportedAddonException ''Unsupported addon format'')
               | Some info \<Rightarrow> compatibility_gate (ayon_version E) info)
             = Inl (unsupported_version (ayon_version E))"
    using pf gate by (simp add: bind_err_def)
  from download_rejected [OF l p pe' cl se rz pf', of ev url] obtain w3 c where
    b': "install_body E w2 ev url (Responded r) p = (Inl (unsupported_version (ayon_version E)), w3)"
    and l3: "lookup (files w3) p = Some (File c 384)"
    and d3: "fs_del (files w3) p = fs_del (files w2) p"
    by blast
  have "install_addon_from_url E w ev url (Responded r)
          = (Inl (unsupported_version (ayon_version E)), w3\<lparr>files := files w\<rparr>)"
    using install_unfold [OF m, of ev url "Responded r"] b' os_remove_file [OF l3 p] d3 d2 f2
    by (simp add: w2_def Let_def)
  then show ?thesis by simp
qed

theorem gate_rejection_witness:
  "scratch_file (example_env\<lparr>ayon_version := ''1.3.0''\<rparr>) (example_world ''PK:maya'')
     = Some [''addons'', ''tmp0'']
   \<and> read_zip (example_env\<lparr>ayon_version := ''1.3.0''\<rparr>)
         (concat (map fst (chunks (response_ok ''PK:legacy'')))) = Some zip_legacy
   \<and> parse_first (example_env\<lparr>ayon_version := ''1.3.0''\<rparr>) zip_legacy
         (PARSERS (example_env\<lparr>ayon_version := ''1.3.0''\<rparr>)) = Inr (Some tvpaint_info)
   \<and> compatibility_gate ''1.3.0'' tvpaint_info = Inl (unsupported_version ''1.3.0'')
   \<and> fst (install_addon_from_url (example_env\<lparr>ayon_version := ''1.3.0''\<rparr>)
            (example_world ''PK:maya'') ''job'' ''http://host/a.zip''
            (Responded (response_ok ''PK:legacy'')))
       = Inl (UnsupportedAddonException ''Ayon version 1.3.0 is not supported by this addon'')
   \<and> files (snd (install_addon_from_url (example_env\<lparr>ayon_version := ''1.3.0''\<rparr>)
            (example_world ''PK:maya'') ''job'' ''http://host/a.zip''
            (Responded (response_ok ''PK:legacy''))))
       = files (example_world ''PK:maya'')"
proof -
  let ?E = "example_env\<lparr>ayon_version := ''1.3.0''\<rparr>"
  have a: "scratch_file ?E (example_world ''PK:maya'') = Some [''addons'', ''tmp0'']"
    by (simp add: scratch_file_def example_env_def example_world_def resolve_def os_create_def
        fs_defs)
  have b: "content_length (response_ok ''PK:legacy'') \<noteq> BadLength"
    and c: "\<not> stream_error (response_ok ''PK:legacy'')"
    by (simp_all add: response_ok_def)
  have d: "read_zip ?E (concat (map fst (chunks (response_ok ''PK:legacy'')))) = Some zip_legacy"
    by (simp add: response_ok_def example_env_def example_read_zip_def)
  have e: "parse_first ?E zip_legacy (PARSERS ?E) = Inr (Some tvpaint_info)"
    by (simp add: parser_defs example_defs tvpaint_info_def)
  have v: "semver_compare ''1.3.0'' ''1.0.0'' = Inr 1" "semver_compare ''1.3.0'' ''1.2.0'' = Inr 1"
    by code_simp+
  have g: "compatibility_gate ''1.3.0'' tvpaint_info = Inl (unsupported_version ''1.3.0'')"
    by (simp add: compatibility_gate_def tvpaint_info_def v)
  have g': "compatibility_gate (ayon_version ?E) tvpaint_info
              = Inl (unsupported_version (ayon_version ?E))"
    using g by simp
  from gate_rejection_leaves_root_unchanged [OF a b c d e g', of "''job''" "''http://host/a.zip''"]
    a d e g
  show ?thesis by (simp add: unsupported_version_def)
qed

lemma os_remove_Inl:
  "os_remove fs p = Inl e \<Longrightarrow> (e = IsADirectoryError \<and> isdir fs p) \<or> lookup fs p = None"
  by (auto simp: os_remove_def exists_path_def split: if_splits)

lemma os_remove_Inr: "os_remove fs p = Inr fs' \<Longrightarrow> fs' = fs_del fs p"
  by (auto simp: os_remove_def split: if_splits)

lemma isdir_not_isfile: "isdir fs p \<Longrightarrow> \<not> isfile fs p"
  by (auto simp: isdir_def isfile_def split: option.splits node.splits)

lemma lookup_None_not_isfile: "lookup fs p = None \<Longrightarrow> \<not> isfile fs p"
  by (simp add: isfile_def)

lemma scratch_gone:
  assumes sf: "scratch_file E w = Some p"
  shows "\<not> isfile (files (snd (install_addon_from_url E w ev url f))) p
         \<and> (lookup (files (snd (install_addon_from_url E w ev url f))) p = None
            \<or> fst (install_addon_from_url E w ev url f) = Inl IsADirectoryError)"
proof -
  from scratch_start [OF sf] obtain fs2 ns where
    m: "mkstemp (files w) (resolve (cwd E) (addons_dir E)) (tmp_names w) = (Inr (p, fs2), ns)"
    by blast
  define r where
    "r = install_body E
           ((update_event w (status_update ev (''Downloading addon from URL '' @ url) ''in_progress''))
              \<lparr>files := fs2, tmp_names := ns\<rparr>) ev url f p"
  note u = install_unfold [OF m, of ev url f, unfolded Let_def, folded r_def]
  show ?thesis
  proof (cases "os_remove (files (snd r)) p")
    case (Inl e)
    then have res: "install_addon_from_url E w ev url f = (Inl e, snd r)" using u by simp
    from os_remove_Inl [OF Inl] show ?thesis
      using res isdir_not_isfile lookup_None_not_isfile by auto
  next
    case (Inr fs4)
    then have fs4: "fs4 = fs_del (files (snd r)) p" using os_remove_Inr by blast
    have "files (snd (install_addon_from_url E w ev url f)) = fs4"
      using u Inr by (cases "fst r") (simp_all add: update_event_def)
    then show ?thesis using fs4 by (simp add: lookup_fs_del isfile_def)
  qed
qed

lemma transfer_fails_result:
  assumes tf: "transfer_fails f" and sf: "scratch_file E w = Some p"
  shows "fst (install_addon_from_url E w ev url f) = Inl TransportError
         \<and> files (snd (install_addon_from_url E w ev url f)) = files w"
proof -
  from scratch_start [OF sf] obtain fs2 ns where
    m: "mkstemp (files w) (resolve (cwd E) (addons_dir E)) (tmp_names w) = (Inr (p, fs2), ns)"
    and p: "p \<noteq> []" and pe: "parent_error fs2 p = None"
    and l2: "lookup fs2 p = Some (File [] 384)" and d2: "fs_del fs2 p = files w" by blast
  define w2 where
    "w2 = (update_event w (status_update ev (''Downloading addon from URL '' @ url) ''in_progress''))
            \<lparr>files := fs2, tmp_names := ns\<rparr>"
  have f2: "files w2 = fs2" by (simp add: w2_def)
  have body: "\<exists>w3 c. install_body E w2 ev url f p = (Inl TransportError, w3)
                \<and> lookup (files w3) p = Some (File c 384) \<and> fs_del (files w3) p = files w"
  proof (cases f)
    case ConnectFailed
    then show ?thesis using l2 d2 f2 by (simp add: install_body_def)
  next
    case (Responded r)
    with tf have se: "stream_error r" and cl: "content_length r \<noteq> BadLength"
      by (simp_all add: transfer_fails_def)
    from l2 pe f2 have l: "lookup (files w2) p = Some (File [] 384)"
      and pe': "parent_error (files w2) p = None" by simp_all
    from download_broken [OF l p pe' cl se, of E ev url] obtain w3 c where
      "install_body E w2 ev url (Responded r) p = (Inl TransportError, w3)"
      "lookup (files w3) p = Some (File c 384)"
      "fs_del (files w3) p = fs_del (files w2) p"
      by blast
    then show ?thesis using Responded d2 f2 by auto
  qed
  then obtain w3 c where b: "install_body E w2 ev url f p = (Inl TransportError, w3)"
    and l3: "lookup (files w3) p = Some (File c 384)"
    and d3: "fs_del (files w3) p = files w"
    by blast
  have "install_addon_from_url E w ev url f = (Inl TransportError, w3\<lparr>files := files w\<rparr>)"
    using install_unfold [OF m, of ev url f] b os_remove_file [OF l3 p] d3
    by (simp add: w2_def Let_def)
  then show ?thesis by simp
qed

lemma install_404_result:
  "fst (install_addon_from_url example_env (example_world ''PK:legacy'') ''job''
          ''http://host/a.zip'' (Responded response_404)) = Inl BadZipFile"
  by (simp add: job_defs response_404_def parser_defs fs_defs example_defs)


text \<open>
  Claim C7, amended. For every remote fetch whose transfer itself fails (the client gets no
  response, or the stream breaks off), the job fails with the transport error before any
  parsing or extraction is attempted: the file system is left as it was. And for every fetch,
  one answered with a non-success status such as 404 included (which is not treated as a failed
  fetch), no scratch file remains on disk afterward.
\<close>

theorem fetch_failure_and_scratch_file:
  assumes sf: "scratch_file E w = Some p"
  shows "(transfer_fails f \<longrightarrow>
            fst (install_addon_from_url E w ev url f) = Inl TransportError
            \<and> files (snd (install_addon_from_url E w ev url f)) = files w)
         \<and> \<not> isfile (files (snd (install_addon_from_url E w ev url f))) p
         \<and> (lookup (files (snd (install_addon_from_url E w ev url f))) p = None
            \<or> fst (install_addon_from_url E w ev url f) = Inl IsADirectoryError)"
  using transfer_fails_result [OF _ sf, of f ev url] scratch_gone [OF sf, of ev url f] by blast

theorem fetch_failure_and_scratch_file_witness:
  "scratch_file example_env (example_world ''PK:legacy'') = Some [''addons'', ''tmp0'']
   \<and> transfer_fails ConnectFailed
   \<and> fst (install_addon_from_url example_env (example_world ''PK:legacy'') ''job''
            ''http://host/a.zip'' ConnectFailed) = Inl TransportError
   \<and> files (snd (install_addon_from_url example_env (example_world ''PK:legacy'') ''job''
            ''http://host/a.zip'' ConnectFailed)) = files (example_world ''PK:legacy'')
   \<and> status_code response_404 = 404
   \<and> \<not> transfer_fails (Responded response_404)
   \<and> lookup (files (snd (install_addon_from_url example_env (example_world ''PK:legacy'') ''job''
            ''http://host/a.zip'' (Responded response_404)))) [''addons'', ''tmp0''] = None"
proof -
  have a: "transfer_fails ConnectFailed" by (simp add: transfer_fails_def)
  have b: "scratch_file example_env (example_world ''PK:legacy'') = Some [''addons'', ''tmp0'']"
    by (simp add: scratch_file_def example_env_def example_world_def resolve_def os_create_def
        fs_defs)
  have c: "status_code response_404 = 404" "\<not> transfer_fails (Responded response_404)"
    by (simp_all add: response_404_def transfer_fails_def)
  from fetch_failure_and_scratch_file [OF b, of ConnectFailed "''job''" "''http://host/a.zip''"] a
  have d: "fst (install_addon_from_url example_env (example_world ''PK:legacy'') ''job''
            ''http://host/a.zip'' ConnectFailed) = Inl TransportError"
    "files (snd (install_addon_from_url example_env (example_world ''PK:legacy'') ''job''
            ''http://host/a.zip'' ConnectFailed)) = files (example_world ''PK:legacy'')"
    by simp_all
  from fetch_failure_and_scratch_file [OF b, of "Responded response_404" "''job''"
      "''http://host/a.zip''"] install_404_result
  have e: "lookup (files (snd (install_addon_from_url example_env (example_world ''PK:legacy'')
            ''job'' ''http://host/a.zip'' (Responded response_404)))) [''addons'', ''tmp0''] = None"
    by simp
  from a b c d e show ?thesis by simp
qed

text \<open>
  Claim C10. Whatever the fetch delivers and whichever step fails, when
  \<^verbatim>\<open>install_addon_from_url\<close> completes, by returning or by raising, there is no file at the
  path of the scratch file it created: the path is free, unless the unlinking itself raised
  \<^verbatim>\<open>IsADirectoryError\<close>.
\<close>

theorem scratch_file_removed:
  assumes sf: "scratch_file E w = Some p"
  shows "\<not> isfile (files (snd (install_addon_from_url E w ev url f))) p
         \<and> (lookup (files (snd (install_addon_from_url E w ev url f))) p = None
            \<or> fst (install_addon_from_url E w ev url f) = Inl IsADirectoryError)"
  using scratch_gone [OF sf] .

theorem scratch_file_removed_witness:
  "scratch_file example_env (example_world ''PK:maya'') = Some [''addons'', ''tmp0'']
   \<and> fst (install_addon_from_url example_env (example_world ''PK:maya'') ''job''
            ''http://host/a.zip'' (Responded (response_ok ''PK:legacy-no-payload'')))
       = Inl FileNotFoundError
   \<and> lookup (files (snd (install_addon_from_url example_env (example_world ''PK:maya'') ''job''
            ''http://host/a.zip'' (Responded (response_ok ''PK:legacy-no-payload'')))))
        [''addons'', ''tmp0''] = None"
proof -
  have a: "scratch_file example_env (example_world ''PK:maya'') = Some [''addons'', ''tmp0'']"
    by (simp add: scratch_file_def example_env_def example_world_def resolve_def os_create_def
        fs_defs)
  have b: "fst (install_addon_from_url example_env (example_world ''PK:maya'') ''job''
            ''http://host/a.zip'' (Responded (response_ok ''PK:legacy-no-payload'')))
       = Inl FileNotFoundError"
    by (simp add: job_defs response_ok_def parser_defs fs_defs example_defs example_gate_legacy
        unpack_defs)
  from scratch_file_removed [OF a, of "''job''" "''http://host/a.zip''"
      "Responded (response_ok ''PK:legacy-no-payload'')"] a b
  show ?thesis by simp
qed

end
